theory Spec2Isabelle
  imports Main
begin

section \<open>Data model\<close>

text \<open>
  The push notification server keeps two MongoDB collections (messages and devices) and
  one Bull queue of delayed jobs. Identifiers are MongoDB ObjectIds; wherever the server
  uses one in a string (a job id, a JSON response) it is rendered as 24 lower-case
  hexadecimal digits. Instants are JavaScript time values: milliseconds since the epoch.
\<close>

type_synonym oid = string
type_synonym instant = int

definition is_hex :: "char \<Rightarrow> bool" where
  "is_hex c = (c \<in> set ''0123456789abcdef'')"

definition is_object_id :: "string \<Rightarrow> bool" where
  "is_object_id s = (length s = 24 \<and> list_all is_hex s)"

text \<open>
  A request may spell an id with upper-case digits: \<open>mongoose.Types.ObjectId.isValid\<close>
  on a string of 24 hexadecimal digits of either case, and the cast of such a string to
  the ObjectId it denotes. (The library also accepts 12-byte strings; the server never
  produces one, and they are taken as invalid here.)
\<close>

definition is_hex_any :: "char \<Rightarrow> bool" where
  "is_hex_any c = (c \<in> set ''0123456789abcdefABCDEF'')"

definition ObjectId_isValid :: "string \<Rightarrow> bool" where
  "ObjectId_isValid s = (length s = 24 \<and> list_all is_hex_any s)"

definition lower_hex :: "char \<Rightarrow> char" where
  "lower_hex c = (case map_of (zip ''ABCDEF'' ''abcdef'') c of Some l \<Rightarrow> l | None \<Rightarrow> c)"

definition ObjectId_cast :: "string \<Rightarrow> oid" where
  "ObjectId_cast s = map lower_hex s"

text \<open>
  The status strings the server reads or writes. The schema enumerates Draft, Scheduled,
  Sent, Failed and Cancelled; the delete routes also test for Pending and Delivered.
\<close>

datatype status = Draft | Scheduled | Sent | Failed | Cancelled | Pending | Delivered

text \<open>
  A stored message. Of the paths the message schema declares, the record has those that
  a route sets or reads, and \<open>sentAt\<close> and \<open>errorMessage\<close>; the counters and flags that
  no route touches are left out. The server also writes and reads \<open>deliveredAt\<close>,
  \<open>cancelledAt\<close> and \<open>error\<close>, which the schema does not declare: a field of the
  record is \<open>None\<close> when the stored document does not carry it.
\<close>

record message =
  message_id :: oid
  title :: string
  content :: string
  scheduledDateTime :: instant
  status :: status
  category :: string
  priority :: string
  targetAudience :: "string list"
  createdBy :: string
  createdAt :: instant
  sentAt :: "instant option"
  errorMessage :: "string option"
  deliveredAt :: "instant option"
  cancelledAt :: "instant option"
  error :: "string option"

text \<open>
  A stored device, with the paths of the device schema that the routes use. The
  registration route also assigns \<open>platform\<close> and \<open>appVersion\<close>; the device schema
  declares neither, so Mongoose stores neither.
\<close>

record device =
  device_id :: oid
  pushToken :: string
  userId :: "string option"
  healthProfile :: "string list"
  isActive :: bool
  lastActive :: instant

text \<open>
  A queued job: the options given to \<open>notificationQueue.add\<close> (\<open>jobId\<close>, \<open>delay\<close>,
  \<open>attempts\<close>, the base of the exponential backoff) and its data, a copy of the message
  with the target device id added.
\<close>

record job =
  jobId :: string
  job_message :: message
  job_deviceId :: "oid option"
  delay :: int
  attempts :: nat
  backoff_delay :: int

text \<open>The \<open>statusUpdate\<close> event the worker emits on the socket.\<close>

record status_update =
  update_messageId :: oid
  update_status :: status
  update_deliveredAt :: "instant option"
  update_error :: "string option"

record server =
  messages :: "message list"
  devices :: "device list"
  queue :: "job list"
  emitted :: "status_update list"

section \<open>The stores at their boundary\<close>

text \<open>
  Mongoose is used through \<open>findById\<close>, \<open>find\<close>, \<open>findOne\<close>, \<open>save\<close>,
  \<open>findByIdAndUpdate\<close>, \<open>findByIdAndDelete\<close> and \<open>deleteMany\<close>. A collection is the
  list of its documents; \<open>_id\<close> is the primary key. The store is taken to be reachable:
  its calls return.
\<close>

definition findById :: "oid \<Rightarrow> message list \<Rightarrow> message option" where
  "findById i ms = find (\<lambda>m. message_id m = i) ms"

definition findByIdAndUpdate :: "oid \<Rightarrow> (message \<Rightarrow> message) \<Rightarrow> message list \<Rightarrow> message list" where
  "findByIdAndUpdate i upd ms = map (\<lambda>m. if message_id m = i then upd m else m) ms"

definition findByIdAndDelete :: "oid \<Rightarrow> message list \<Rightarrow> message list" where
  "findByIdAndDelete i ms = filter (\<lambda>m. message_id m \<noteq> i) ms"

text \<open>
  The paths of the message schema (with \<open>timestamps: true\<close>). The schema sets no
  \<open>strict\<close> option, so Mongoose's strict mode is on: of the fields named in an update,
  or assigned to a document before \<open>save\<close>, it writes those that are paths of the schema
  and drops the others.
\<close>

definition messageSchema :: "string list" where
  "messageSchema =
     [''title'', ''content'', ''scheduledDateTime'', ''status'', ''category'', ''priority'',
      ''targetAudience'', ''recipients'', ''deliveredCount'', ''deliveryRate'', ''createdBy'',
      ''sentAt'', ''errorMessage'', ''healthCategory'', ''actionRequired'', ''expiresAt'',
      ''clickCount'', ''dismissCount'', ''createdAt'', ''updatedAt'']"

datatype assignment =
    Set_status status
  | Set_deliveredAt instant
  | Set_cancelledAt instant
  | Set_error string

fun path :: "assignment \<Rightarrow> string" where
  "path (Set_status st) = ''status''"
| "path (Set_deliveredAt t) = ''deliveredAt''"
| "path (Set_cancelledAt t) = ''cancelledAt''"
| "path (Set_error e) = ''error''"

fun assign :: "assignment \<Rightarrow> message \<Rightarrow> message" where
  "assign (Set_status st) m = m\<lparr>status := st\<rparr>"
| "assign (Set_deliveredAt t) m = m\<lparr>deliveredAt := Some t\<rparr>"
| "assign (Set_cancelledAt t) m = m\<lparr>cancelledAt := Some t\<rparr>"
| "assign (Set_error e) m = m\<lparr>error := Some e\<rparr>"

definition strict_update :: "assignment list \<Rightarrow> message \<Rightarrow> message" where
  "strict_update as m = fold assign (filter (\<lambda>a. path a \<in> set messageSchema) as) m"

definition Device_findById :: "oid \<Rightarrow> device list \<Rightarrow> device option" where
  "Device_findById i ds = find (\<lambda>d. device_id d = i) ds"

definition Device_findOne :: "string \<Rightarrow> device list \<Rightarrow> device option" where
  "Device_findOne tok ds = find (\<lambda>d. pushToken d = tok) ds"

text \<open>The validators of the message schema, run by \<open>save\<close> on a new document.\<close>

definition categories :: "string list" where
  "categories = [''Health Tip'', ''Appointment Reminder'', ''System Update'',
                 ''Emergency Alert'', ''Wellness Check'']"

definition priorities :: "string list" where
  "priorities = [''low'', ''normal'', ''high'', ''urgent'']"

definition schema_valid :: "message \<Rightarrow> bool" where
  "schema_valid m =
     (title m \<noteq> [] \<and> length (title m) \<le> 100 \<and>
      content m \<noteq> [] \<and> length (content m) \<le> 500 \<and>
      status m \<in> set [Draft, Scheduled, Sent, Failed, Cancelled] \<and>
      category m \<in> set categories \<and> priority m \<in> set priorities)"

section \<open>Dispatch job keys and the queue\<close>

text \<open>The template literal \<open>`${message._id}-${device._id}`\<close>.\<close>

definition device_job_id :: "oid \<Rightarrow> oid \<Rightarrow> string" where
  "device_job_id mid did = mid @ ''-'' @ did"

text \<open>
  Bull's \<open>add\<close> with a custom \<open>jobId\<close>: when the queue already holds a job with that id
  the call adds nothing. \<open>getJob\<close> returns the job with that id or null, and
  \<open>job.remove()\<close> deletes it.
\<close>

definition queue_add :: "job \<Rightarrow> job list \<Rightarrow> job list" where
  "queue_add j q = (if jobId j \<in> set (map jobId q) then q else q @ [j])"

definition queue_getJob :: "string \<Rightarrow> job list \<Rightarrow> job option" where
  "queue_getJob k q = find (\<lambda>j. jobId j = k) q"

definition queue_remove :: "string \<Rightarrow> job list \<Rightarrow> job list" where
  "queue_remove k q = filter (\<lambda>j. jobId j \<noteq> k) q"

definition live_entries :: "string \<Rightarrow> job list \<Rightarrow> nat" where
  "live_entries k q = length (filter (\<lambda>j. jobId j = k) q)"

text \<open>
  A queue call can also throw (the Redis connection is lost, the job is locked by a
  worker). Which calls throw is decided outside the server: the three predicates say,
  per job id, whether \<open>add\<close>, \<open>getJob\<close> and \<open>remove\<close> throw.
\<close>

record queue_faults =
  add_throws :: "string \<Rightarrow> bool"
  getJob_throws :: "string \<Rightarrow> bool"
  remove_throws :: "string \<Rightarrow> bool"

definition no_faults :: queue_faults where
  "no_faults = \<lparr>add_throws = (\<lambda>k. False), getJob_throws = (\<lambda>k. False),
                 remove_throws = (\<lambda>k. False)\<rparr>"

text \<open>
  The idiom \<open>job = await getJob(k); if (job) await job.remove()\<close>: the queue afterwards
  and whether a job was removed, or \<open>None\<close> when one of the two calls throws.
\<close>

definition remove_if_present :: "queue_faults \<Rightarrow> string \<Rightarrow> job list \<Rightarrow> (job list \<times> bool) option" where
  "remove_if_present f k q =
     (if getJob_throws f k then None
      else case queue_getJob k q of
             None \<Rightarrow> Some (q, False)
           | Some j \<Rightarrow> if remove_throws f k then None else Some (queue_remove k q, True))"

section \<open>Time values and the time normalizer\<close>

subsection \<open>Strings\<close>

definition is_digit :: "char \<Rightarrow> bool" where
  "is_digit c = (c \<in> set ''0123456789'')"

definition digit_val :: "char \<Rightarrow> int" where
  "digit_val c = of_char c - 48"

definition number_of :: "string \<Rightarrow> int" where
  "number_of s = foldl (\<lambda>n c. 10 * n + digit_val c) 0 s"

definition is_space :: "char \<Rightarrow> bool" where
  "is_space c = (c \<in> set [CHR '' '', CHR 0x09, CHR 0x0A, CHR 0x0B, CHR 0x0C, CHR 0x0D])"

definition trim :: "string \<Rightarrow> string" where
  "trim s = rev (dropWhile is_space (rev (dropWhile is_space s)))"

text \<open>
  The regular expressions of the source are sequences of character classes: a digit
  (\<open>\d\<close>), a sign (\<open>[+-]\<close>) or a literal character, anchored at the start (\<open>^\<close>) or at
  the end (\<open>$\<close>) of the string.
\<close>

datatype cls = D | Sign | Lit char

fun in_cls :: "cls \<Rightarrow> char \<Rightarrow> bool" where
  "in_cls D c = is_digit c"
| "in_cls Sign c = (c = CHR ''+'' \<or> c = CHR ''-'')"
| "in_cls (Lit a) c = (c = a)"

definition matches :: "cls list \<Rightarrow> string \<Rightarrow> bool" where
  "matches p s = list_all2 in_cls p s"

definition test_prefix :: "cls list \<Rightarrow> string \<Rightarrow> bool" where
  "test_prefix p s = matches p (take (length p) s)"

definition test_suffix :: "cls list \<Rightarrow> string \<Rightarrow> bool" where
  "test_suffix p s = (length p \<le> length s \<and> matches p (drop (length s - length p) s))"

definition field :: "nat \<Rightarrow> nat \<Rightarrow> string \<Rightarrow> int" where
  "field i n s = number_of (take n (drop i s))"

subsection \<open>JavaScript dates\<close>

text \<open>
  \<open>new Date(string)\<close> at its boundary. ECMAScript fixes the time value of a string in
  the date-time format \<open>YYYY-MM-DDTHH:mm\<close>, \<open>YYYY-MM-DDTHH:mm:ss\<close> or
  \<open>YYYY-MM-DDTHH:mm:ss.sss\<close> followed by \<open>Z\<close> or an offset \<open>\<plusminus>HH:mm\<close>, with every field
  in its calendar range; \<open>iso_parse\<close> computes it. What any other string gives is left to
  the engine, the parameter \<open>impl\<close> of \<open>Date_parse\<close>: its field \<open>parse_impl\<close> is the
  time value of such a string, \<open>None\<close> standing for an invalid date. Its field
  \<open>display_impl\<close> is the display string of an instant before 2007, see below.
\<close>

record date_impl =
  parse_impl :: "string \<Rightarrow> instant option"
  display_impl :: "instant \<Rightarrow> string"

definition msPerDay :: int where
  "msPerDay = 86400000"

definition is_leap :: "int \<Rightarrow> bool" where
  "is_leap y = (y mod 4 = 0 \<and> (y mod 100 \<noteq> 0 \<or> y mod 400 = 0))"

definition days_in_month :: "int \<Rightarrow> int \<Rightarrow> int" where
  "days_in_month y m =
     (if m = 2 then (if is_leap y then 29 else 28)
      else if m = 4 \<or> m = 6 \<or> m = 9 \<or> m = 11 then 30 else 31)"

text \<open>The day number of a civil date, counted from 1 January 1970, and its inverse.\<close>

definition MakeDay :: "int \<Rightarrow> int \<Rightarrow> int \<Rightarrow> int" where
  "MakeDay y m d =
     (let y' = (if m \<le> 2 then y - 1 else y);
          era = y' div 400;
          yoe = y' - era * 400;
          doy = (153 * (if 2 < m then m - 3 else m + 9) + 2) div 5 + d - 1;
          doe = yoe * 365 + yoe div 4 - yoe div 100 + doy
      in era * 146097 + doe - 719468)"

definition civil_from_days :: "int \<Rightarrow> int \<times> int \<times> int" where
  "civil_from_days z =
     (let z' = z + 719468;
          era = z' div 146097;
          doe = z' - era * 146097;
          yoe = (doe - doe div 1460 + doe div 36524 - doe div 146096) div 365;
          doy = doe - (365 * yoe + yoe div 4 - yoe div 100);
          mp = (5 * doy + 2) div 153;
          d = doy - (153 * mp + 2) div 5 + 1;
          m = (if mp < 10 then mp + 3 else mp - 9);
          y = yoe + era * 400
      in (if m \<le> 2 then y + 1 else y, m, d))"

definition WeekDay :: "int \<Rightarrow> int" where
  "WeekDay z = (z + 4) mod 7"

definition MakeTime :: "int \<Rightarrow> int \<Rightarrow> int \<Rightarrow> int \<Rightarrow> int" where
  "MakeTime h mi s ms = h * 3600000 + mi * 60000 + s * 1000 + ms"

definition MakeDate :: "int \<Rightarrow> int \<Rightarrow> instant" where
  "MakeDate day time = day * msPerDay + time"

definition date_hm :: "cls list" where
  "date_hm = [D, D, D, D, Lit CHR ''-'', D, D, Lit CHR ''-'', D, D, Lit CHR ''T'',
              D, D, Lit CHR '':'', D, D]"

definition sec_part :: "cls list" where
  "sec_part = [Lit CHR '':'', D, D]"

definition ms_part :: "cls list" where
  "ms_part = [Lit CHR ''.'', D, D, D]"

definition offset_part :: "cls list" where
  "offset_part = [Sign, D, D, Lit CHR '':'', D, D]"

text \<open>The offset east of UTC, in minutes.\<close>

definition parse_offset :: "string \<Rightarrow> int option" where
  "parse_offset s =
     (if s = ''Z'' then Some 0
      else if matches offset_part s \<and> field 1 2 s \<le> 23 \<and> field 4 2 s \<le> 59
      then Some ((if take 1 s = ''-'' then - 1 else 1) * (field 1 2 s * 60 + field 4 2 s))
      else None)"

definition iso_parse :: "string \<Rightarrow> instant option" where
  "iso_parse s =
     (if \<not> test_prefix date_hm s then None
      else
        let y = field 0 4 s; m = field 5 2 s; d = field 8 2 s;
            h = field 11 2 s; mi = field 14 2 s;
            r1 = drop 16 s;
            has_sec = test_prefix sec_part r1;
            sec = (if has_sec then field 1 2 r1 else 0);
            r2 = (if has_sec then drop 3 r1 else r1);
            has_ms = (has_sec \<and> test_prefix ms_part r2);
            ms = (if has_ms then field 1 3 r2 else 0);
            r3 = (if has_ms then drop 4 r2 else r2)
        in case parse_offset r3 of
             None \<Rightarrow> None
           | Some off \<Rightarrow>
               if 1 \<le> m \<and> m \<le> 12 \<and> 1 \<le> d \<and> d \<le> days_in_month y m
                  \<and> h \<le> 23 \<and> mi \<le> 59 \<and> sec \<le> 59
               then Some (MakeDate (MakeDay y m d) (MakeTime h mi sec ms) - off * 60000)
               else None)"

definition Date_parse :: "date_impl \<Rightarrow> string \<Rightarrow> instant option" where
  "Date_parse impl s = (case iso_parse s of Some t \<Rightarrow> Some t | None \<Rightarrow> parse_impl impl s)"

subsection \<open>The display string\<close>

text \<open>
  \<open>toLocaleString('en-US', {timeZone: 'America/Chicago', ...})\<close> with two-digit month,
  day, hour, minute and second, numeric year and a 12-hour clock. From 2007 on,
  America/Chicago is six hours behind UTC, and five while daylight saving time is in
  force, from 02:00 local time on the second Sunday of March until 02:00 local time on
  the first Sunday of November; \<open>chicago_offset\<close> is the offset under this rule. Before
  2007 the zone followed a history of other rules: \<open>chicago_offset\<close> gives none for such
  an instant, and its display string is left to the engine (\<open>display_impl\<close>).
\<close>

definition rule_of_2007 :: instant where
  "rule_of_2007 = MakeDate (MakeDay 2007 1 1) 0"

definition first_sunday_from :: "int \<Rightarrow> int" where
  "first_sunday_from day = day + (7 - WeekDay day) mod 7"

definition dst_start :: "int \<Rightarrow> instant" where
  "dst_start y = MakeDate (first_sunday_from (MakeDay y 3 8)) (MakeTime 8 0 0 0)"

definition dst_end :: "int \<Rightarrow> instant" where
  "dst_end y = MakeDate (first_sunday_from (MakeDay y 11 1)) (MakeTime 7 0 0 0)"

definition chicago_offset :: "instant \<Rightarrow> int option" where
  "chicago_offset t =
     (if t < rule_of_2007 then None
      else let y = fst (civil_from_days (t div msPerDay))
           in Some (if dst_start y \<le> t \<and> t < dst_end y then - 5 * 3600000 else - 6 * 3600000))"

definition digit_char :: "int \<Rightarrow> char" where
  "digit_char n = ''0123456789'' ! nat n"

definition two_digit :: "int \<Rightarrow> string" where
  "two_digit n = [digit_char ((n div 10) mod 10), digit_char (n mod 10)]"

fun numeric :: "nat \<Rightarrow> string" where
  "numeric n = (if n < 10 then [digit_char (int n)]
                else numeric (n div 10) @ [digit_char (int (n mod 10))])"

text \<open>A local time in the pattern \<open>MM/DD/YYYY, hh:mm:ss AM\<close> of the locale en-US.\<close>

definition format_en_US :: "instant \<Rightarrow> string" where
  "format_en_US local =
     (let (y, m, d) = civil_from_days (local div msPerDay);
          tod = local mod msPerDay;
          h = tod div 3600000;
          mi = (tod div 60000) mod 60;
          s = (tod div 1000) mod 60;
          h12 = (if h mod 12 = 0 then 12 else h mod 12)
      in two_digit m @ ''/'' @ two_digit d @ ''/'' @ numeric (nat y) @ '', '' @
         two_digit h12 @ '':'' @ two_digit mi @ '':'' @ two_digit s @
         (if h < 12 then '' AM'' else '' PM''))"

definition toLocaleString_Chicago :: "date_impl \<Rightarrow> instant \<Rightarrow> string" where
  "toLocaleString_Chicago impl t =
     (case chicago_offset t of
        None \<Rightarrow> display_impl impl t
      | Some offset \<Rightarrow> format_en_US (t + offset))"

subsection \<open>convertToCST\<close>

record cst_conversion =
  utcDate :: instant
  cstString :: string

definition tz_Z :: "cls list" where
  "tz_Z = [Lit CHR ''Z'']"

definition tz_colon :: "cls list" where
  "tz_colon = [Sign, D, D, Lit CHR '':'', D, D]"

definition tz_plain :: "cls list" where
  "tz_plain = [Sign, D, D, D, D]"

definition hasTimezoneInfo :: "string \<Rightarrow> bool" where
  "hasTimezoneInfo s = (test_suffix tz_Z s \<or> test_suffix tz_colon s \<or> test_suffix tz_plain s)"

definition naive_format :: "cls list" where
  "naive_format = [D, D, D, D, Lit CHR ''-'', D, D, Lit CHR ''-'', D, D, Lit CHR ''T'',
                   D, D, Lit CHR '':'', D, D, Lit CHR '':'', D, D]"

text \<open>
  The result is the error message (\<open>isValid: false\<close>) or the instant with its display
  string (\<open>isValid: true\<close>). \<open>parse_and_render\<close> is the part after the branch:
  \<open>new Date(processedString)\<close>, the test for an invalid date and the display string.
\<close>

definition parse_and_render :: "date_impl \<Rightarrow> string \<Rightarrow> string + cst_conversion" where
  "parse_and_render impl processedString =
     (case Date_parse impl processedString of
        None \<Rightarrow> Inl ''Invalid date/time value''
      | Some inputDate \<Rightarrow>
          Inr \<lparr>utcDate = inputDate, cstString = toLocaleString_Chicago impl inputDate\<rparr>)"

definition convertToCST :: "date_impl \<Rightarrow> string \<Rightarrow> string + cst_conversion" where
  "convertToCST impl dateTimeString =
     (let processedString = trim dateTimeString
      in if \<not> hasTimezoneInfo processedString then
           (if \<not> test_prefix naive_format processedString
            then Inl ''Invalid datetime format. Expected: YYYY-MM-DDTHH:mm:ss''
            else parse_and_render impl (processedString @ ''-06:00''))
         else parse_and_render impl processedString)"

text \<open>
  For a string that starts with \<open>YYYY-MM-DDTHH:mm:ss\<close>: whether its fields are in their
  calendar ranges, and the time value of these fields read as UTC.
\<close>

definition calendar_valid :: "string \<Rightarrow> bool" where
  "calendar_valid s =
     (1 \<le> field 5 2 s \<and> field 5 2 s \<le> 12 \<and>
      1 \<le> field 8 2 s \<and> field 8 2 s \<le> days_in_month (field 0 4 s) (field 5 2 s) \<and>
      field 11 2 s \<le> 23 \<and> field 14 2 s \<le> 59 \<and> field 17 2 s \<le> 59)"

definition local_time :: "string \<Rightarrow> instant" where
  "local_time s =
     MakeDate (MakeDay (field 0 4 s) (field 5 2 s) (field 8 2 s))
              (MakeTime (field 11 2 s) (field 14 2 s) (field 17 2 s) 0)"

section \<open>Device registration\<close>

text \<open>
  Request fields that JavaScript tests for truthiness are strings, the empty string
  standing for a field that is absent or empty; \<open>new_id\<close> is the ObjectId that Mongoose
  gives a new document and \<open>now\<close> the value of \<open>new Date()\<close>.
\<close>

record register_request =
  reg_pushToken :: string
  reg_platform :: string
  reg_appVersion :: string
  reg_userId :: string
  reg_healthProfile :: "string list option"

datatype register_response =
    PushTokenRequired
  | Registered oid

definition or_else :: "string \<Rightarrow> string \<Rightarrow> string" where
  "or_else a b = (if a \<noteq> [] then a else b)"

text \<open>
  The assignments to an existing device before \<open>device.save()\<close>, and the document of
  \<open>new Device({...})\<close>; \<open>platform\<close> and \<open>appVersion\<close> are dropped.
\<close>

definition refresh_device :: "instant \<Rightarrow> register_request \<Rightarrow> device \<Rightarrow> device" where
  "refresh_device now r dev =
     dev\<lparr>lastActive := now,
         userId := (if reg_userId r \<noteq> [] then Some (reg_userId r) else userId dev),
         healthProfile := (case reg_healthProfile r of Some h \<Rightarrow> h
                           | None \<Rightarrow> healthProfile dev)\<rparr>"

definition new_device :: "instant \<Rightarrow> oid \<Rightarrow> register_request \<Rightarrow> device" where
  "new_device now new_id r =
     \<lparr>device_id = new_id,
      pushToken = reg_pushToken r,
      userId = (if reg_userId r \<noteq> [] then Some (reg_userId r) else None),
      healthProfile = (case reg_healthProfile r of Some h \<Rightarrow> h | None \<Rightarrow> []),
      isActive = True,
      lastActive = now\<rparr>"

definition register_device :: "instant \<Rightarrow> oid \<Rightarrow> register_request \<Rightarrow> server \<Rightarrow> server \<times> register_response" where
  "register_device now new_id r s =
     (if reg_pushToken r = [] then (s, PushTokenRequired)
      else case Device_findOne (reg_pushToken r) (devices s) of
             Some dev \<Rightarrow>
               (s\<lparr>devices := map (\<lambda>d. if device_id d = device_id dev
                                        then refresh_device now r dev else d) (devices s)\<rparr>,
                Registered (device_id dev))
           | None \<Rightarrow>
               (s\<lparr>devices := devices s @ [new_device now new_id r]\<rparr>, Registered new_id))"


section \<open>Creating and scheduling a message\<close>

record create_request =
  req_title :: string
  req_body :: string
  req_scheduledDateTime :: string
  req_category :: string
  req_priority :: string
  req_targetAudience :: "string list option"
  req_createdBy :: string
  req_deviceId :: string

text \<open>One entry of \<open>results\<close> in the response: message id, job id and device id.\<close>

type_synonym dispatch = "oid \<times> string \<times> oid"

datatype create_response =
    MissingFields
  | InvalidDatetime string
  | PastTime string
  | NoActiveDevices
  | Created oid "dispatch list"
  | ServerError

text \<open>
  \<open>Device.find({ _id: deviceId })\<close> when the request names a device (the cast of a
  string that is not an ObjectId throws), \<open>Device.find({ isActive: true })\<close> otherwise.
\<close>

definition target_devices :: "string \<Rightarrow> device list \<Rightarrow> device list option" where
  "target_devices deviceId ds =
     (if deviceId \<noteq> [] then
        (if ObjectId_isValid deviceId
         then Some (filter (\<lambda>d. device_id d = ObjectId_cast deviceId) ds) else None)
      else Some (filter isActive ds))"

text \<open>
  The loop over the devices: one \<open>notificationQueue.add\<close> per device; a call that
  throws ends the loop (and the request, with status 500).
\<close>

definition dispatch_job :: "message \<Rightarrow> int \<Rightarrow> device \<Rightarrow> job" where
  "dispatch_job m dl dev =
     \<lparr>jobId = device_job_id (message_id m) (device_id dev),
      job_message = m, job_deviceId = Some (device_id dev),
      delay = dl, attempts = 3, backoff_delay = 2000\<rparr>"

definition dispatch_result :: "message \<Rightarrow> device \<Rightarrow> dispatch" where
  "dispatch_result m dev =
     (message_id m, device_job_id (message_id m) (device_id dev), device_id dev)"

fun enqueue_jobs :: "queue_faults \<Rightarrow> message \<Rightarrow> int \<Rightarrow> device list \<Rightarrow> job list \<Rightarrow> dispatch list
                       \<Rightarrow> job list \<times> dispatch list option" where
  "enqueue_jobs f m dl [] q results = (q, Some results)"
| "enqueue_jobs f m dl (dev # rest) q results =
     (if add_throws f (device_job_id (message_id m) (device_id dev)) then (q, None)
      else enqueue_jobs f m dl rest (queue_add (dispatch_job m dl dev) q)
             (results @ [dispatch_result m dev]))"

text \<open>The document built by \<open>new Message({...})\<close>.\<close>

definition new_message :: "instant \<Rightarrow> oid \<Rightarrow> create_request \<Rightarrow> instant \<Rightarrow> message" where
  "new_message now new_id r scheduledTime =
     \<lparr>message_id = new_id,
      title = req_title r,
      content = req_body r,
      scheduledDateTime = scheduledTime,
      status = Scheduled,
      category = or_else (req_category r) ''Health Tip'',
      priority = or_else (req_priority r) ''normal'',
      targetAudience = (case req_targetAudience r of Some a \<Rightarrow> a | None \<Rightarrow> [''All Users'']),
      createdBy = or_else (req_createdBy r) ''System'',
      createdAt = now,
      sentAt = None, errorMessage = None,
      deliveredAt = None, cancelledAt = None, error = None\<rparr>"

text \<open>
  \<open>message.save()\<close> followed by the loop. A document that fails the schema's
  validators is not saved: \<open>save\<close> throws and the request ends with status 500, as it
  does when a queue call throws.
\<close>

definition save_and_enqueue :: "queue_faults \<Rightarrow> message \<Rightarrow> int \<Rightarrow> device list \<Rightarrow> server
                                 \<Rightarrow> server \<times> create_response" where
  "save_and_enqueue f m dl devs s =
     (if \<not> schema_valid m then (s, ServerError)
      else
        let effectiveDelay = (if dl < 1000 then 1000 else dl);
            enq = enqueue_jobs f m effectiveDelay devs (queue s) []
        in (s\<lparr>messages := messages s @ [m], queue := fst enq\<rparr>,
            case snd enq of None \<Rightarrow> ServerError | Some results \<Rightarrow> Created (message_id m) results))"

definition create_message :: "date_impl \<Rightarrow> queue_faults \<Rightarrow> instant \<Rightarrow> oid
                                \<Rightarrow> create_request \<Rightarrow> server \<Rightarrow> server \<times> create_response" where
  "create_message impl f now new_id r s =
     (if req_title r = [] \<or> req_body r = [] \<or> req_scheduledDateTime r = [] then (s, MissingFields)
      else case convertToCST impl (req_scheduledDateTime r) of
        Inl e \<Rightarrow> (s, InvalidDatetime e)
      | Inr cstConversion \<Rightarrow>
          let scheduledTime = utcDate cstConversion;
              dl = scheduledTime - now
          in if dl < - 10000 then (s, PastTime (cstString cstConversion))
             else (case target_devices (req_deviceId r) (devices s) of
                     None \<Rightarrow> (s, ServerError)
                   | Some devs \<Rightarrow>
                       if devs = [] then (s, NoActiveDevices)
                       else save_and_enqueue f (new_message now new_id r scheduledTime) dl devs s))"

section \<open>The delivery worker\<close>

text \<open>
  The JSON body of the push gateway's answer, with the fields the worker reads:
  \<open>data.status\<close>, \<open>data.details.error\<close> and \<open>errors[0].message\<close>. A field that is absent
  is \<open>None\<close>.
\<close>

record push_details =
  details_error :: "string option"

record push_ticket =
  ticket_status :: "string option"
  ticket_details :: "push_details option"

record push_error =
  error_message :: "string option"

record push_result =
  result_data :: "push_ticket option"
  result_errors :: "push_error list option"

text \<open>The call to the gateway returns a body, or throws (network, body not JSON).\<close>

datatype gateway_reply = Responds push_result | Fails

datatype job_outcome =
    Returned bool string
  | Delivered_ok
  | Rejected push_result
  | Thrown

text \<open>\<open>result.data && result.data.status === 'ok'\<close>\<close>

definition gateway_ok :: "push_result \<Rightarrow> bool" where
  "gateway_ok result =
     (case result_data result of None \<Rightarrow> False | Some t \<Rightarrow> ticket_status t = Some ''ok'')"

text \<open>
  \<open>result.data?.details?.error || (result.errors && result.errors[0]?.message) ||
  'Unknown error'\<close>
\<close>

definition reported_details_error :: "push_result \<Rightarrow> string option" where
  "reported_details_error result =
     (case result_data result of None \<Rightarrow> None
      | Some t \<Rightarrow> (case ticket_details t of None \<Rightarrow> None | Some d \<Rightarrow> details_error d))"

definition first_error_message :: "push_result \<Rightarrow> string option" where
  "first_error_message result =
     (case result_errors result of None \<Rightarrow> None
      | Some [] \<Rightarrow> None
      | Some (e # es) \<Rightarrow> error_message e)"

definition failure_reason :: "push_result \<Rightarrow> string" where
  "failure_reason result =
     (case reported_details_error result of
        Some (c # cs) \<Rightarrow> c # cs
      | _ \<Rightarrow> (case first_error_message result of
                Some (c # cs) \<Rightarrow> c # cs
              | _ \<Rightarrow> ''Unknown error''))"

text \<open>
  One execution of the processor on a job. \<open>Returned\<close>, \<open>Delivered_ok\<close> and \<open>Rejected\<close>
  are the values the processor returns (the job completes and is not retried);
  \<open>Thrown\<close> is an exception, which Bull retries. With \<open>{ new: true }\<close> the update returns
  the updated document, or null when no document has the id; reading a field of null
  throws.
\<close>

text \<open>\<open>message.deviceId || message._id\<close>\<close>

definition job_target :: "job \<Rightarrow> oid" where
  "job_target j = (case job_deviceId j of Some d \<Rightarrow> d | None \<Rightarrow> message_id (job_message j))"

definition process_job :: "gateway_reply \<Rightarrow> instant \<Rightarrow> job \<Rightarrow> server \<Rightarrow> server \<times> job_outcome" where
  "process_job reply now j s =
     (let message = job_message j;
          deviceId = job_target j
      in case Device_findById deviceId (devices s) of
           None \<Rightarrow> (s, Returned False ''Device not found'')
         | Some dev \<Rightarrow>
            (case reply of
               Fails \<Rightarrow> (s, Thrown)
             | Responds result \<Rightarrow>
                 if gateway_ok result then
                   let ms = findByIdAndUpdate (message_id message)
                              (strict_update [Set_status Sent, Set_deliveredAt now]) (messages s)
                   in (case findById (message_id message) ms of
                         None \<Rightarrow> (s\<lparr>messages := ms\<rparr>, Thrown)
                       | Some updatedMsg \<Rightarrow>
                           (s\<lparr>messages := ms,
                              emitted := emitted s @
                                [\<lparr>update_messageId = message_id message, update_status = Sent,
                                  update_deliveredAt = deliveredAt updatedMsg,
                                  update_error = None\<rparr>]\<rparr>,
                            Delivered_ok))
                 else
                   let ms = findByIdAndUpdate (message_id message)
                              (strict_update [Set_status Failed, Set_error (failure_reason result)])
                              (messages s)
                   in (case findById (message_id message) ms of
                         None \<Rightarrow> (s\<lparr>messages := ms\<rparr>, Thrown)
                       | Some updatedMsg \<Rightarrow>
                           (s\<lparr>messages := ms,
                              emitted := emitted s @
                                [\<lparr>update_messageId = message_id message, update_status = Failed,
                                  update_deliveredAt = None,
                                  update_error = error updatedMsg\<rparr>]\<rparr>,
                            Rejected result))))"

section \<open>Cancelling and deleting\<close>

text \<open>
  The answers of the route. A successful cancellation answers with the message id, the
  status and \<open>cancelledAt\<close> as assigned to the document in memory, and whether the
  warning is present.
\<close>

datatype delete_response =
    InvalidMessageId
  | MessageNotFound
  | MessageCancelled oid status instant bool
  | DeliveredMessageDeleted string
  | MessageDeleted string status

text \<open>
  The body of the \<open>try\<close> block up to the first queue call that throws: the job whose id is
  the message id, then one job per active device. The result is the queue afterwards and
  whether a call threw.
\<close>

fun remove_jobs :: "queue_faults \<Rightarrow> string list \<Rightarrow> job list \<Rightarrow> job list \<times> bool" where
  "remove_jobs f [] q = (q, False)"
| "remove_jobs f (k # ks) q =
     (case remove_if_present f k q of
        None \<Rightarrow> (q, True)
      | Some (q', removed) \<Rightarrow> remove_jobs f ks q')"

definition candidate_job_ids :: "string \<Rightarrow> device list \<Rightarrow> string list" where
  "candidate_job_ids messageId ds =
     messageId # map (\<lambda>d. device_job_id messageId (device_id d)) (filter isActive ds)"

text \<open>
  The route. \<open>message.save()\<close> after the two assignments writes those that are paths of
  the schema.
\<close>

definition delete_message :: "queue_faults \<Rightarrow> instant \<Rightarrow> string \<Rightarrow> server \<Rightarrow> server \<times> delete_response" where
  "delete_message f now messageId s =
     (if messageId = [] \<or> \<not> ObjectId_isValid messageId then (s, InvalidMessageId)
      else case findById (ObjectId_cast messageId) (messages s) of
        None \<Rightarrow> (s, MessageNotFound)
      | Some message \<Rightarrow>
          let canCancel = (status message \<in> set [Scheduled, Pending]);
              isDelivered = (status message \<in> set [Delivered, Sent])
          in if canCancel then
               let (q, threw) = remove_jobs f (candidate_job_ids messageId (devices s)) (queue s)
               in (s\<lparr>queue := q,
                     messages := findByIdAndUpdate (message_id message)
                                   (strict_update [Set_status Cancelled, Set_cancelledAt now])
                                   (messages s)\<rparr>,
                   MessageCancelled (message_id message) Cancelled now threw)
             else if isDelivered then
               (s\<lparr>messages := findByIdAndDelete (ObjectId_cast messageId) (messages s)\<rparr>,
                DeliveredMessageDeleted messageId)
             else
               (s\<lparr>messages := findByIdAndDelete (ObjectId_cast messageId) (messages s)\<rparr>,
                MessageDeleted messageId (status message)))"

subsection \<open>Bulk deletion\<close>

text \<open>
  The body of the request: \<open>messageIds\<close> (an array), \<open>status\<close>, and \<open>olderThan\<close>, here
  the time value of \<open>new Date(olderThan)\<close>.
\<close>

record bulk_request =
  bulk_messageIds :: "string list option"
  bulk_status :: "status option"
  bulk_olderThan :: "instant option"

datatype delete_filter = ById_in "string list" | ByStatus status | CreatedBefore instant

datatype bulk_response =
    MissingParameter
  | BulkDeleted nat nat
  | BulkServerError

definition build_filter :: "bulk_request \<Rightarrow> delete_filter option" where
  "build_filter r =
     (case bulk_messageIds r of
        Some ids \<Rightarrow> Some (ById_in ids)
      | None \<Rightarrow> (case bulk_status r of
                   Some st \<Rightarrow> Some (ByStatus st)
                 | None \<Rightarrow> (case bulk_olderThan r of
                              Some t \<Rightarrow> Some (CreatedBefore t)
                            | None \<Rightarrow> None)))"

text \<open>A filter on \<open>_id\<close> casts its strings to ObjectIds; the cast of any other string throws.\<close>

fun castable :: "delete_filter \<Rightarrow> bool" where
  "castable (ById_in ids) = list_all ObjectId_isValid ids"
| "castable (ByStatus st) = True"
| "castable (CreatedBefore t) = True"

fun selects :: "delete_filter \<Rightarrow> message \<Rightarrow> bool" where
  "selects (ById_in ids) m = (message_id m \<in> set (map ObjectId_cast ids))"
| "selects (ByStatus st) m = (status m = st)"
| "selects (CreatedBefore t) m = (createdAt m < t)"

text \<open>
  The loop over the messages found: for a Scheduled or Pending message the job whose id
  is the message id is looked up and removed; a queue call that throws is logged and the
  loop goes on.
\<close>

fun cleanup_queue :: "queue_faults \<Rightarrow> message list \<Rightarrow> job list \<Rightarrow> nat \<Rightarrow> job list \<times> nat" where
  "cleanup_queue f [] q queueJobsRemoved = (q, queueJobsRemoved)"
| "cleanup_queue f (m # ms) q queueJobsRemoved =
     (if status m \<in> set [Scheduled, Pending] then
        (case remove_if_present f (message_id m) q of
           None \<Rightarrow> cleanup_queue f ms q queueJobsRemoved
         | Some (q', removed) \<Rightarrow>
             cleanup_queue f ms q' (if removed then queueJobsRemoved + 1 else queueJobsRemoved))
      else cleanup_queue f ms q queueJobsRemoved)"

definition bulk_delete :: "queue_faults \<Rightarrow> bulk_request \<Rightarrow> server \<Rightarrow> server \<times> bulk_response" where
  "bulk_delete f r s =
     (case build_filter r of
        None \<Rightarrow> (s, MissingParameter)
      | Some deleteFilter \<Rightarrow>
          if \<not> castable deleteFilter then (s, BulkServerError)
          else
            let messagesToDelete = filter (selects deleteFilter) (messages s);
                (q, queueJobsRemoved) = cleanup_queue f messagesToDelete (queue s) 0
            in (s\<lparr>queue := q,
                  messages := filter (\<lambda>m. \<not> selects deleteFilter m) (messages s)\<rparr>,
                BulkDeleted (length messagesToDelete) queueJobsRemoved))"

section \<open>Runs of the server\<close>

text \<open>
  The operations that change the stores, each with what the environment contributes to
  it (the clock, a fresh ObjectId, the queue calls that throw, the gateway's answer, the
  job the queue hands to the worker), and the state after a sequence of them.
\<close>

datatype operation =
    Register instant oid register_request
  | Create date_impl queue_faults instant oid create_request
  | Work gateway_reply instant job
  | Delete queue_faults instant string
  | BulkDelete queue_faults bulk_request

fun step :: "operation \<Rightarrow> server \<Rightarrow> server" where
  "step (Register now new_id r) s = fst (register_device now new_id r s)"
| "step (Create impl f now new_id r) s = fst (create_message impl f now new_id r s)"
| "step (Work reply now j) s = fst (process_job reply now j s)"
| "step (Delete f now messageId) s = fst (delete_message f now messageId s)"
| "step (BulkDelete f r) s = fst (bulk_delete f r s)"

fun run :: "operation list \<Rightarrow> server \<Rightarrow> server" where
  "run [] s = s"
| "run (op # ops) s = run ops (step op s)"

definition terminal :: "status \<Rightarrow> bool" where
  "terminal st = (st \<in> set [Sent, Failed, Cancelled])"

definition status_of :: "oid \<Rightarrow> server \<Rightarrow> status option" where
  "status_of i s = map_option status (findById i (messages s))"

text \<open>
  \<open>creates op i\<close>: the operation is a creation whose new document gets the id \<open>i\<close>;
  \<open>works_on op i\<close>: it is a worker execution of a job of message \<open>i\<close>.
\<close>

fun creates :: "operation \<Rightarrow> oid \<Rightarrow> bool" where
  "creates (Create impl f now new_id r) i = (new_id = i)"
| "creates (Register now new_id r) i = False"
| "creates (Work reply now j) i = False"
| "creates (Delete f now messageId) i = False"
| "creates (BulkDelete f r) i = False"

fun works_on :: "operation \<Rightarrow> oid \<Rightarrow> bool" where
  "works_on (Work reply now j) i = (message_id (job_message j) = i)"
| "works_on (Register now new_id r) i = False"
| "works_on (Create impl f now new_id r) i = False"
| "works_on (Delete f now messageId) i = False"
| "works_on (BulkDelete f r) i = False"


section \<open>Example data\<close>

definition id_m1 :: oid where
  "id_m1 = ''65a000000000000000000001''"

definition id_d1 :: oid where
  "id_d1 = ''65d000000000000000000001''"

definition id_d2 :: oid where
  "id_d2 = ''65d000000000000000000002''"

definition phone1 :: device where
  "phone1 = \<lparr>device_id = id_d1, pushToken = ''ExponentPushToken[one]'', userId = None,
             healthProfile = [], isActive = True, lastActive = 0\<rparr>"

definition phone2 :: device where
  "phone2 = \<lparr>device_id = id_d2, pushToken = ''ExponentPushToken[two]'', userId = None,
             healthProfile = [], isActive = True, lastActive = 0\<rparr>"

definition two_phones :: server where
  "two_phones = \<lparr>messages = [], devices = [phone1, phone2], queue = [], emitted = []\<rparr>"

text \<open>
  An engine that takes every string outside the date-time format as an invalid date. The
  display string of an instant before 2007 plays no part in the examples.
\<close>

definition engine :: date_impl where
  "engine = \<lparr>parse_impl = (\<lambda>s. None), display_impl = (\<lambda>t. [])\<rparr>"

text \<open>Noon on 1 January 2030, Central Standard Time: 18:00 UTC.\<close>

definition noon_2030 :: instant where
  "noon_2030 = 1893520800000"

definition reminder :: create_request where
  "reminder = \<lparr>req_title = ''Checkup'', req_body = ''Your appointment is today'',
               req_scheduledDateTime = ''2030-01-01T12:00:00'', req_category = [],
               req_priority = [], req_targetAudience = None, req_createdBy = [],
               req_deviceId = []\<rparr>"

definition reminder_message :: message where
  "reminder_message =
     \<lparr>message_id = id_m1, title = ''Checkup'', content = ''Your appointment is today'',
      scheduledDateTime = noon_2030, status = Scheduled, category = ''Health Tip'',
      priority = ''normal'', targetAudience = [''All Users''], createdBy = ''System'',
      createdAt = noon_2030 - 60000, sentAt = None, errorMessage = None,
      deliveredAt = None, cancelledAt = None, error = None\<rparr>"

definition reminder_job :: "oid \<Rightarrow> job" where
  "reminder_job did =
     \<lparr>jobId = device_job_id id_m1 did, job_message = reminder_message,
      job_deviceId = Some did, delay = 60000, attempts = 3, backoff_delay = 2000\<rparr>"

definition id_unknown :: oid where
  "id_unknown = ''65d000000000000000000009''"

definition scheduled_state :: server where
  "scheduled_state =
     \<lparr>messages = [reminder_message], devices = [phone1, phone2],
      queue = [reminder_job id_d1, reminder_job id_d2], emitted = []\<rparr>"

definition ticket_ok :: push_result where
  "ticket_ok = \<lparr>result_data = Some \<lparr>ticket_status = Some ''ok'', ticket_details = None\<rparr>,
                result_errors = None\<rparr>"

definition ticket_error :: push_result where
  "ticket_error =
     \<lparr>result_data = Some \<lparr>ticket_status = Some ''error'',
                           ticket_details = Some \<lparr>details_error = Some ''DeviceNotRegistered''\<rparr>\<rparr>,
      result_errors = None\<rparr>"

text \<open>Two readings of the server's clock.\<close>

definition an_hour_late :: instant where
  "an_hour_late = noon_2030 + 3600000"

definition a_minute_early :: instant where
  "a_minute_early = noon_2030 - 60000"

text \<open>A queue in which the job for the second phone cannot be removed.\<close>

definition second_job_locked :: queue_faults where
  "second_job_locked =
     \<lparr>add_throws = (\<lambda>k. False), getJob_throws = (\<lambda>k. False),
      remove_throws = (\<lambda>k. k = device_job_id id_m1 id_d2)\<rparr>"




text \<open>
  The first phone's push fails and the second's succeeds; and a cancellation that could
  not remove the second phone's job, which then runs.
\<close>

definition fail_then_deliver :: "operation list" where
  "fail_then_deliver =
     [Work (Responds ticket_error) noon_2030 (reminder_job id_d1),
      Work (Responds ticket_ok) noon_2030 (reminder_job id_d2)]"

definition cancel_then_deliver :: "operation list" where
  "cancel_then_deliver =
     [Delete second_job_locked a_minute_early id_m1,
      Work (Responds ticket_ok) noon_2030 (reminder_job id_d2)]"

definition delete_scheduled :: bulk_request where
  "delete_scheduled =
     \<lparr>bulk_messageIds = None, bulk_status = Some Scheduled, bulk_olderThan = None\<rparr>"

text \<open>The state after the first phone's push succeeded, and a later failure for the second.\<close>

definition delivered_state :: server where
  "delivered_state =
     run [Work (Responds ticket_ok) noon_2030 (reminder_job id_d1)] scheduled_state"

definition late_failure :: "operation list" where
  "late_failure = [Work (Responds ticket_error) noon_2030 (reminder_job id_d2)]"

text \<open>
  Noon on 1 July 2025 as a request writes it, and the instants at which a clock in
  America/Chicago (then on daylight saving time, five hours behind UTC) and a clock six
  hours behind UTC show it.
\<close>

definition summer_noon :: string where
  "summer_noon = ''2025-07-01T12:00:00''"

definition summer_noon_chicago :: instant where
  "summer_noon_chicago = 1751389200000"

definition summer_noon_utc_minus_6 :: instant where
  "summer_noon_utc_minus_6 = 1751392800000"

section \<open>Properties of job keys\<close>

lemma device_job_id_inject:
  assumes "length m1 = length m2" and "device_job_id m1 d1 = device_job_id m2 d2"
  shows "m1 = m2 \<and> d1 = d2"
  using assms by (simp add: device_job_id_def)

lemma device_job_id_same_message:
  "(device_job_id m d1 = device_job_id m d2) = (d1 = d2)"
  by (simp add: device_job_id_def)

lemma live_entries_queue_add:
  "live_entries k (queue_add j q) =
     (if jobId j = k \<and> live_entries k q = 0 then 1 else live_entries k q)"
proof (cases "jobId j \<in> set (map jobId q)")
  case True
  then obtain j' where "j' \<in> set q" and "jobId j' = jobId j" by auto
  then have "filter (\<lambda>x. jobId x = jobId j) q \<noteq> []"
    by (auto simp: filter_empty_conv)
  with True show ?thesis by (auto simp: queue_add_def live_entries_def)
next
  case False
  then have "filter (\<lambda>x. jobId x = jobId j) q = []"
    by (force simp: filter_empty_conv image_iff)
  with False show ?thesis by (auto simp: queue_add_def live_entries_def)
qed

lemma queue_add_twice:
  "jobId j' = jobId j \<Longrightarrow> queue_add j' (queue_add j q) = queue_add j q"
  by (auto simp: queue_add_def)

text \<open>
  Claim C4. The dispatch job key is a function of the pair (record id, device id): equal
  pairs give equal keys, and for record ids that are ObjectIds two different pairs give
  different keys. Submitting a job under a key a second time leaves the queue as the
  first submission left it, so a queue that held at most one entry under the key holds
  exactly one afterwards.
\<close>

theorem job_key_deterministic_collision_free:
  "(m1 = m2 \<and> d1 = d2 \<longrightarrow> device_job_id m1 d1 = device_job_id m2 d2) \<and>
   (is_object_id m1 \<and> is_object_id m2 \<and> (m1, d1) \<noteq> (m2, d2)
      \<longrightarrow> device_job_id m1 d1 \<noteq> device_job_id m2 d2) \<and>
   (jobId j = device_job_id m d \<and> jobId j' = device_job_id m d
      \<and> live_entries (device_job_id m d) q \<le> 1
      \<longrightarrow> queue_add j' (queue_add j q) = queue_add j q
        \<and> live_entries (device_job_id m d) (queue_add j' (queue_add j q)) = 1)"
proof (intro conjI impI)
  assume "m1 = m2 \<and> d1 = d2"
  then show "device_job_id m1 d1 = device_job_id m2 d2" by simp
next
  assume a: "is_object_id m1 \<and> is_object_id m2 \<and> (m1, d1) \<noteq> (m2, d2)"
  then have "length m1 = length m2" by (simp add: is_object_id_def)
  with a show "device_job_id m1 d1 \<noteq> device_job_id m2 d2"
    using device_job_id_inject [of m1 m2 d1 d2] by auto
next
  assume a: "jobId j = device_job_id m d \<and> jobId j' = device_job_id m d
      \<and> live_entries (device_job_id m d) q \<le> 1"
  then show "queue_add j' (queue_add j q) = queue_add j q"
    by (simp add: queue_add_twice)
  from a show "live_entries (device_job_id m d) (queue_add j' (queue_add j q)) = 1"
    by (simp add: queue_add_twice live_entries_queue_add)
qed

lemma example_ids: "is_object_id id_m1" "is_object_id id_d1" "is_object_id id_d2"
  by (simp_all add: is_object_id_def is_hex_def id_m1_def id_d1_def id_d2_def)

theorem job_key_deterministic_collision_free_witness:
  "device_job_id id_m1 id_d1 = device_job_id id_m1 id_d1 \<and>
   is_object_id id_m1 \<and> (id_m1, id_d1) \<noteq> (id_m1, id_d2) \<and>
   device_job_id id_m1 id_d1 \<noteq> device_job_id id_m1 id_d2 \<and>
   jobId (reminder_job id_d1) = device_job_id id_m1 id_d1 \<and>
   live_entries (device_job_id id_m1 id_d1) [] \<le> 1 \<and>
   queue_add (reminder_job id_d1) (queue_add (reminder_job id_d1) []) = [reminder_job id_d1] \<and>
   live_entries (device_job_id id_m1 id_d1)
     (queue_add (reminder_job id_d1) (queue_add (reminder_job id_d1) [])) = 1"
proof -
  have ne: "(id_m1, id_d1) \<noteq> (id_m1, id_d2)"
    by (simp add: id_d1_def id_d2_def)
  have k: "jobId (reminder_job id_d1) = device_job_id id_m1 id_d1"
    by (simp add: reminder_job_def)
  have l: "live_entries (device_job_id id_m1 id_d1) [] \<le> 1"
    by (simp add: live_entries_def)
  have q: "queue_add (reminder_job id_d1) [] = [reminder_job id_d1]"
    by (simp add: queue_add_def)
  from job_key_deterministic_collision_free
         [of id_m1 id_m1 id_d1 id_d2 "reminder_job id_d1" id_m1 id_d1 "reminder_job id_d1" "[]"]
       example_ids ne k l q
  show ?thesis by (simp add: live_entries_def)
qed

section \<open>The store\<close>

lemma findById_update:
  assumes "\<And>m. message_id (upd m) = message_id m"
  shows "findById i (findByIdAndUpdate i upd ms) = map_option upd (findById i ms)"
  using assms by (induction ms) (auto simp: findById_def findByIdAndUpdate_def)

lemma findById_update_other:
  assumes "\<And>m. message_id (upd m) = message_id m" and "i \<noteq> k"
  shows "findById i (findByIdAndUpdate k upd ms) = findById i ms"
  using assms by (induction ms) (auto simp: findById_def findByIdAndUpdate_def)

lemma update_absent:
  "findById i ms = None \<Longrightarrow> findByIdAndUpdate i upd ms = ms"
  by (induction ms) (auto simp: findById_def findByIdAndUpdate_def split: if_splits)

lemma strict_update_id [simp]: "message_id (strict_update as m) = message_id m"
proof -
  have "message_id (fold assign bs m) = message_id m" for bs
  proof (induction bs arbitrary: m)
    case Nil
    then show ?case by simp
  next
    case (Cons b bs)
    then show ?case by (cases b) simp_all
  qed
  then show ?thesis by (simp add: strict_update_def)
qed

lemma strict_update_sent:
  "strict_update [Set_status Sent, Set_deliveredAt t] = (\<lambda>m. m\<lparr>status := Sent\<rparr>)"
  by (rule ext) (simp add: strict_update_def messageSchema_def)

lemma strict_update_failed:
  "strict_update [Set_status Failed, Set_error e] = (\<lambda>m. m\<lparr>status := Failed\<rparr>)"
  by (rule ext) (simp add: strict_update_def messageSchema_def)

lemma strict_update_cancelled:
  "strict_update [Set_status Cancelled, Set_cancelledAt t] = (\<lambda>m. m\<lparr>status := Cancelled\<rparr>)"
  by (rule ext) (simp add: strict_update_def messageSchema_def)

lemma update_pointwise:
  "list_all2 (\<lambda>m m'. m' = m \<or> m' = upd m) ms (findByIdAndUpdate i upd ms)"
  by (induction ms) (auto simp: findByIdAndUpdate_def)

section \<open>The delivery worker\<close>

text \<open>
  Claim C9. When no device has the id the job targets, the processor returns the value
  \<open>{ success: false, error: 'Device not found' }\<close> (it does not throw, so the job is
  not retried) and the whole state is as before: every message, with every field, the
  devices, the queue and the emitted events.
\<close>

theorem device_not_found_leaves_record:
  assumes "Device_findById (job_target j) (devices s) = None"
  shows "process_job reply now j s = (s, Returned False ''Device not found'')"
  using assms by (simp add: process_job_def job_target_def Let_def)

theorem device_not_found_leaves_record_witness:
  "Device_findById (job_target (reminder_job id_unknown)) (devices scheduled_state) = None
   \<and> process_job (Responds ticket_ok) noon_2030 (reminder_job id_unknown) scheduled_state
       = (scheduled_state, Returned False ''Device not found'')"
proof -
  have h: "Device_findById (job_target (reminder_job id_unknown))
             (devices scheduled_state) = None"
    by (simp add: Device_findById_def job_target_def reminder_job_def scheduled_state_def
          phone1_def phone2_def id_d1_def id_d2_def id_unknown_def)
  from h device_not_found_leaves_record [OF h] show ?thesis by simp
qed

lemma process_job_sent:
  assumes dev: "Device_findById (job_target j) (devices s) = Some dev"
      and msg: "findById (message_id (job_message j)) (messages s) = Some m"
      and ok: "gateway_ok result"
  shows "process_job (Responds result) now j s =
           (s\<lparr>messages := findByIdAndUpdate (message_id (job_message j))
                             (\<lambda>m. m\<lparr>status := Sent\<rparr>) (messages s),
              emitted := emitted s @
                [\<lparr>update_messageId = message_id (job_message j), update_status = Sent,
                  update_deliveredAt = deliveredAt m, update_error = None\<rparr>]\<rparr>,
            Delivered_ok)"
  using assms
  by (simp add: process_job_def Let_def findById_update strict_update_sent)

lemma process_job_failed:
  assumes dev: "Device_findById (job_target j) (devices s) = Some dev"
      and msg: "findById (message_id (job_message j)) (messages s) = Some m"
      and ok: "\<not> gateway_ok result"
  shows "process_job (Responds result) now j s =
           (s\<lparr>messages := findByIdAndUpdate (message_id (job_message j))
                             (\<lambda>m. m\<lparr>status := Failed\<rparr>) (messages s),
              emitted := emitted s @
                [\<lparr>update_messageId = message_id (job_message j), update_status = Failed,
                  update_deliveredAt = None, update_error = error m\<rparr>]\<rparr>,
            Rejected result)"
  using assms
  by (simp add: process_job_def Let_def findById_update strict_update_failed)

lemma process_job_messages:
  "messages (fst (process_job reply now j s)) = messages s \<or>
   (\<exists>result. reply = Responds result \<and> gateway_ok result \<and>
      messages (fst (process_job reply now j s)) =
        findByIdAndUpdate (message_id (job_message j)) (\<lambda>m. m\<lparr>status := Sent\<rparr>) (messages s)) \<or>
   (\<exists>result. reply = Responds result \<and> \<not> gateway_ok result \<and>
      messages (fst (process_job reply now j s)) =
        findByIdAndUpdate (message_id (job_message j)) (\<lambda>m. m\<lparr>status := Failed\<rparr>) (messages s))"
  by (auto simp: process_job_def Let_def strict_update_sent strict_update_failed
           split: option.splits gateway_reply.splits)

lemma failure_reason_nonempty: "failure_reason result \<noteq> []"
  by (simp add: failure_reason_def split: option.splits list.splits)

lemma process_job_pointwise:
  "list_all2 (\<lambda>old new. new = old \<or> new = old\<lparr>status := Sent\<rparr> \<or> new = old\<lparr>status := Failed\<rparr>)
     (messages s) (messages (fst (process_job reply now j s)))"
proof -
  let ?R = "\<lambda>old new. new = old \<or> new = old\<lparr>status := Sent\<rparr> \<or> new = old\<lparr>status := Failed\<rparr>"
  have same: "list_all2 ?R (messages s) (messages s)"
    by (simp add: list_all2_same)
  have sent: "list_all2 ?R (messages s)
                (findByIdAndUpdate i (\<lambda>m. m\<lparr>status := Sent\<rparr>) (messages s))" for i
    using update_pointwise [of "\<lambda>m. m\<lparr>status := Sent\<rparr>" "messages s" i]
    by (auto elim!: list_all2_mono)
  have failed: "list_all2 ?R (messages s)
                  (findByIdAndUpdate i (\<lambda>m. m\<lparr>status := Failed\<rparr>) (messages s))" for i
    using update_pointwise [of "\<lambda>m. m\<lparr>status := Failed\<rparr>" "messages s" i]
    by (auto elim!: list_all2_mono)
  from process_job_messages [of reply now j s] show ?thesis
    using same sent failed by (elim disjE exE conjE) simp_all
qed

text \<open>
  What an execution that finds its device and its message does to the record: it sets
  the status to Sent when the gateway's answer has \<open>data.status = 'ok'\<close> and to Failed
  for every other answer, and changes nothing else. Whatever the answer, each stored
  message is afterwards as it was, or differs in its status alone, which is Sent or
  Failed.
\<close>

lemma worker_records_status:
  assumes dev: "Device_findById (job_target j) (devices s) = Some dev"
      and msg: "findById (message_id (job_message j)) (messages s) = Some m"
  shows "(gateway_ok result \<longrightarrow>
            findById (message_id (job_message j))
              (messages (fst (process_job (Responds result) now j s)))
              = Some (m\<lparr>status := Sent\<rparr>)
            \<and> snd (process_job (Responds result) now j s) = Delivered_ok) \<and>
         (\<not> gateway_ok result \<longrightarrow>
            findById (message_id (job_message j))
              (messages (fst (process_job (Responds result) now j s)))
              = Some (m\<lparr>status := Failed\<rparr>)
            \<and> snd (process_job (Responds result) now j s) = Rejected result)"
proof (intro conjI impI)
  assume ok: "gateway_ok result"
  show "findById (message_id (job_message j))
          (messages (fst (process_job (Responds result) now j s))) = Some (m\<lparr>status := Sent\<rparr>)"
    using msg by (simp add: process_job_sent [OF dev msg ok] findById_update)
  show "snd (process_job (Responds result) now j s) = Delivered_ok"
    by (simp add: process_job_sent [OF dev msg ok])
next
  assume no: "\<not> gateway_ok result"
  show "findById (message_id (job_message j))
          (messages (fst (process_job (Responds result) now j s))) = Some (m\<lparr>status := Failed\<rparr>)"
    using msg by (simp add: process_job_failed [OF dev msg no] findById_update)
  show "snd (process_job (Responds result) now j s) = Rejected result"
    by (simp add: process_job_failed [OF dev msg no])
qed

text \<open>
  The reason the worker names in its update: the one the gateway reported
  (\<open>data.details.error\<close>, else the message of the first entry of \<open>errors\<close>), or
  \<open>'Unknown error'\<close> when it reported none.
\<close>

lemma failure_reason_reported:
  "(\<forall>e. reported_details_error result = Some e \<and> e \<noteq> [] \<longrightarrow> failure_reason result = e) \<and>
   (reported_details_error result \<in> {None, Some []} \<longrightarrow>
      (\<forall>e. first_error_message result = Some e \<and> e \<noteq> [] \<longrightarrow> failure_reason result = e) \<and>
      (first_error_message result \<in> {None, Some []} \<longrightarrow>
         failure_reason result = ''Unknown error''))"
proof (intro conjI impI allI)
  fix e assume "reported_details_error result = Some e \<and> e \<noteq> []"
  then show "failure_reason result = e"
    by (cases e) (simp_all add: failure_reason_def)
next
  fix e assume a: "reported_details_error result \<in> {None, Some []}"
    and b: "first_error_message result = Some e \<and> e \<noteq> []"
  then show "failure_reason result = e"
    by (cases e) (auto simp: failure_reason_def)
next
  assume "reported_details_error result \<in> {None, Some []}"
    and "first_error_message result \<in> {None, Some []}"
  then show "failure_reason result = ''Unknown error''"
    by (auto simp: failure_reason_def)
qed

text \<open>
  Claim C5 on the code. The first phone's job of \<open>scheduled_state\<close> runs. With the answer
  \<open>{ data: { status: 'ok' } }\<close> the update names \<open>status\<close> and \<open>deliveredAt\<close>; the
  record becomes Sent and carries no \<open>deliveredAt\<close>, and the event emitted carries none.
  With an answer that reports \<open>DeviceNotRegistered\<close> the update names \<open>status\<close> and
  \<open>error\<close>; the record becomes Failed and carries no \<open>error\<close>. Neither field is a path
  of the message schema (which declares \<open>sentAt\<close> and \<open>errorMessage\<close>).
\<close>

theorem worker_update_loses_deliveredAt_and_error:
  "''deliveredAt'' \<notin> set messageSchema \<and> ''error'' \<notin> set messageSchema \<and>
   failure_reason ticket_error = ''DeviceNotRegistered'' \<and>
   process_job (Responds ticket_ok) noon_2030 (reminder_job id_d1) scheduled_state =
     (scheduled_state
        \<lparr>messages := [reminder_message\<lparr>status := Sent\<rparr>],
         emitted := [\<lparr>update_messageId = id_m1, update_status = Sent,
                      update_deliveredAt = None, update_error = None\<rparr>]\<rparr>,
      Delivered_ok) \<and>
   deliveredAt (reminder_message\<lparr>status := Sent\<rparr>) = None \<and>
   process_job (Responds ticket_error) noon_2030 (reminder_job id_d1) scheduled_state =
     (scheduled_state
        \<lparr>messages := [reminder_message\<lparr>status := Failed\<rparr>],
         emitted := [\<lparr>update_messageId = id_m1, update_status = Failed,
                      update_deliveredAt = None, update_error = None\<rparr>]\<rparr>,
      Rejected ticket_error) \<and>
   error (reminder_message\<lparr>status := Failed\<rparr>) = None"
  by code_simp

section \<open>Creating a message\<close>

lemma convertToCST_empty: "convertToCST impl [] \<noteq> Inr c"
  by (simp add: convertToCST_def trim_def hasTimezoneInfo_def test_suffix_def test_prefix_def
        matches_def naive_format_def tz_Z_def tz_colon_def tz_plain_def)

lemma enqueue_jobs_all:
  assumes "\<forall>d \<in> set devs. \<not> add_throws f (device_job_id (message_id m) (device_id d))"
      and "distinct (map device_id devs)"
      and "\<forall>d \<in> set devs. device_job_id (message_id m) (device_id d) \<notin> jobId ` set q"
  shows "enqueue_jobs f m dl devs q results =
           (q @ map (dispatch_job m dl) devs, Some (results @ map (dispatch_result m) devs))"
  using assms
proof (induction devs arbitrary: q results)
  case Nil
  then show ?case by simp
next
  case (Cons dev rest)
  have added: "queue_add (dispatch_job m dl dev) q = q @ [dispatch_job m dl dev]"
    using Cons.prems(3) by (simp add: queue_add_def dispatch_job_def)
  have fresh: "\<forall>d \<in> set rest. device_job_id (message_id m) (device_id d)
                 \<notin> jobId ` set (q @ [dispatch_job m dl dev])"
    using Cons.prems(2,3)
    by (auto simp: dispatch_job_def device_job_id_same_message image_iff)
  have "enqueue_jobs f m dl rest (q @ [dispatch_job m dl dev]) (results @ [dispatch_result m dev]) =
          ((q @ [dispatch_job m dl dev]) @ map (dispatch_job m dl) rest,
           Some ((results @ [dispatch_result m dev]) @ map (dispatch_result m) rest))"
    using Cons.prems(1,2) fresh by (intro Cons.IH) auto
  with Cons.prems(1) added show ?case by simp
qed

lemma target_devices_distinct:
  "distinct (map device_id ds) \<Longrightarrow> target_devices x ds = Some devs \<Longrightarrow> distinct (map device_id devs)"
  by (auto simp: target_devices_def distinct_map_filter split: if_splits)

text \<open>
  Claim C3. A request whose scheduled instant lies more than ten seconds before the
  server's clock is rejected and leaves the state as it was: no message is stored and no
  job is enqueued. The answer is the past-time error whenever the request carries a title
  and a body (without them it is already rejected for the missing fields).
\<close>

theorem past_time_rejected_atomically:
  assumes "convertToCST impl (req_scheduledDateTime r) = Inr c"
      and "utcDate c - now < - 10000"
  shows "create_message impl f now new_id r s =
           (s, if req_title r = [] \<or> req_body r = [] then MissingFields
               else PastTime (cstString c))"
proof -
  from assms(1) have "req_scheduledDateTime r \<noteq> []"
    using convertToCST_empty [of impl c] by auto
  with assms show ?thesis by (simp add: create_message_def Let_def)
qed


lemma reminder_conversion:
  "convertToCST engine (req_scheduledDateTime reminder) =
     Inr \<lparr>utcDate = noon_2030, cstString = ''01/01/2030, 12:00:00 PM''\<rparr>"
  by code_simp

theorem past_time_rejected_atomically_witness:
  "convertToCST engine (req_scheduledDateTime reminder) =
     Inr \<lparr>utcDate = noon_2030, cstString = ''01/01/2030, 12:00:00 PM''\<rparr> \<and>
   noon_2030 - an_hour_late < - 10000 \<and>
   create_message engine no_faults an_hour_late id_m1 reminder two_phones =
     (two_phones, PastTime ''01/01/2030, 12:00:00 PM'')"
proof -
  have late: "utcDate \<lparr>utcDate = noon_2030, cstString = ''01/01/2030, 12:00:00 PM''\<rparr>
                - an_hour_late < - 10000"
    by (simp add: an_hour_late_def)
  have fields: "req_title reminder \<noteq> [] \<and> req_body reminder \<noteq> []"
    by (simp add: reminder_def)
  from past_time_rejected_atomically [OF reminder_conversion late, of no_faults id_m1 two_phones]
       reminder_conversion late fields
  show ?thesis by simp
qed

text \<open>
  Claim C1. A request with title and body, a scheduled instant no more than ten seconds
  in the past, a non-empty list of N target devices and a document that passes the
  schema's validators stores exactly one new message, with status Scheduled, and appends
  exactly N jobs to the queue, one per target device, each carrying that one message.
  The ObjectId of the new message is fresh (no queued job is keyed by it) and the queue
  accepts the jobs.
\<close>

theorem create_stores_one_record_and_n_jobs:
  assumes fields: "req_title r \<noteq> []" "req_body r \<noteq> []"
      and conv: "convertToCST impl (req_scheduledDateTime r) = Inr c"
      and future: "- 10000 \<le> utcDate c - now"
      and target: "target_devices (req_deviceId r) (devices s) = Some devs" "devs \<noteq> []"
      and valid: "schema_valid (new_message now new_id r (utcDate c))"
      and keys: "distinct (map device_id (devices s))"
      and fresh: "\<forall>d \<in> set devs. device_job_id new_id (device_id d) \<notin> jobId ` set (queue s)"
      and up: "\<forall>d \<in> set devs. \<not> add_throws f (device_job_id new_id (device_id d))"
  shows "\<exists>m jobs.
           create_message impl f now new_id r s =
             (s\<lparr>messages := messages s @ [m], queue := queue s @ jobs\<rparr>,
              Created new_id (map (\<lambda>d. (new_id, device_job_id new_id (device_id d), device_id d)) devs))
           \<and> message_id m = new_id \<and> status m = Scheduled
           \<and> title m = req_title r \<and> content m = req_body r \<and> scheduledDateTime m = utcDate c
           \<and> length jobs = length devs
           \<and> map jobId jobs = map (\<lambda>d. device_job_id new_id (device_id d)) devs
           \<and> map job_deviceId jobs = map (\<lambda>d. Some (device_id d)) devs
           \<and> distinct (map jobId jobs)
           \<and> (\<forall>j \<in> set jobs. job_message j = m \<and> attempts j = 3
                  \<and> delay j = max 1000 (utcDate c - now))"
proof -
  define m where "m = new_message now new_id r (utcDate c)"
  define dl where "dl = (if utcDate c - now < 1000 then 1000 else utcDate c - now)"
  define jobs where "jobs = map (dispatch_job m dl) devs"
  have mid: "message_id m = new_id"
    by (simp add: m_def new_message_def)
  have dist: "distinct (map device_id devs)"
    using keys target(1) by (rule target_devices_distinct)
  have nonempty: "req_scheduledDateTime r \<noteq> []"
    using conv convertToCST_empty [of impl c] by auto
  have enq: "enqueue_jobs f m dl devs (queue s) [] =
               (queue s @ jobs, Some ([] @ map (dispatch_result m) devs))"
    unfolding jobs_def using up dist fresh by (intro enqueue_jobs_all) (simp_all add: mid)
  have res: "map (dispatch_result m) devs =
               map (\<lambda>d. (new_id, device_job_id new_id (device_id d), device_id d)) devs"
    by (simp add: dispatch_result_def mid)
  have "create_message impl f now new_id r s =
          (s\<lparr>messages := messages s @ [m], queue := queue s @ jobs\<rparr>,
           Created new_id (map (\<lambda>d. (new_id, device_job_id new_id (device_id d), device_id d)) devs))"
    using fields nonempty conv future target valid enq res
    by (simp add: create_message_def save_and_enqueue_def Let_def m_def [symmetric]
          dl_def [symmetric] mid)
  moreover have "status m = Scheduled \<and> title m = req_title r \<and> content m = req_body r
                   \<and> scheduledDateTime m = utcDate c"
    by (simp add: m_def new_message_def)
  moreover have "length jobs = length devs"
    by (simp add: jobs_def)
  moreover have "map jobId jobs = map (\<lambda>d. device_job_id new_id (device_id d)) devs"
    by (simp add: jobs_def dispatch_job_def mid)
  moreover have "map job_deviceId jobs = map (\<lambda>d. Some (device_id d)) devs"
    by (simp add: jobs_def dispatch_job_def)
  moreover have "distinct (map jobId jobs)"
  proof -
    have "inj_on (\<lambda>d. device_job_id new_id d) (set (map device_id devs))"
      by (simp add: inj_on_def device_job_id_same_message)
    then have "distinct (map (\<lambda>d. device_job_id new_id d) (map device_id devs))"
      using dist by (simp add: distinct_map del: map_map)
    then show ?thesis
      by (simp add: jobs_def dispatch_job_def mid comp_def)
  qed
  moreover have "\<forall>j \<in> set jobs. job_message j = m \<and> attempts j = 3
                   \<and> delay j = max 1000 (utcDate c - now)"
    by (auto simp: jobs_def dispatch_job_def dl_def max_def)
  ultimately show ?thesis using mid by blast
qed

theorem create_stores_one_record_and_n_jobs_witness:
  "req_title reminder \<noteq> [] \<and> req_body reminder \<noteq> [] \<and>
   convertToCST engine (req_scheduledDateTime reminder) =
     Inr \<lparr>utcDate = noon_2030, cstString = ''01/01/2030, 12:00:00 PM''\<rparr> \<and>
   - 10000 \<le> noon_2030 - a_minute_early \<and>
   target_devices (req_deviceId reminder) (devices two_phones) = Some [phone1, phone2] \<and>
   schema_valid (new_message a_minute_early id_m1 reminder noon_2030) \<and>
   distinct (map device_id (devices two_phones)) \<and>
   (\<exists>m jobs.
      create_message engine no_faults a_minute_early id_m1 reminder two_phones =
        (two_phones\<lparr>messages := [m], queue := jobs\<rparr>,
         Created id_m1 [(id_m1, device_job_id id_m1 id_d1, id_d1),
                        (id_m1, device_job_id id_m1 id_d2, id_d2)])
      \<and> status m = Scheduled \<and> length jobs = 2)"
proof -
  let ?c = "\<lparr>utcDate = noon_2030, cstString = ''01/01/2030, 12:00:00 PM''\<rparr>"
  have fields: "req_title reminder \<noteq> []" "req_body reminder \<noteq> []"
    by (simp_all add: reminder_def)
  have future: "- 10000 \<le> utcDate ?c - a_minute_early"
    by (simp add: a_minute_early_def)
  have target: "target_devices (req_deviceId reminder) (devices two_phones) = Some [phone1, phone2]"
    by (simp add: target_devices_def reminder_def two_phones_def phone1_def phone2_def)
  have ne: "[phone1, phone2] \<noteq> []" by simp
  have valid: "schema_valid (new_message a_minute_early id_m1 reminder (utcDate ?c))"
    by (simp add: schema_valid_def new_message_def reminder_def or_else_def categories_def
          priorities_def)
  have keys: "distinct (map device_id (devices two_phones))"
    by (simp add: two_phones_def phone1_def phone2_def id_d1_def id_d2_def)
  have fresh: "\<forall>d \<in> set [phone1, phone2].
                 device_job_id id_m1 (device_id d) \<notin> jobId ` set (queue two_phones)"
    by (simp add: two_phones_def)
  have up: "\<forall>d \<in> set [phone1, phone2].
              \<not> add_throws no_faults (device_job_id id_m1 (device_id d))"
    by (simp add: no_faults_def)
  from create_stores_one_record_and_n_jobs
         [OF fields reminder_conversion future target ne valid keys fresh up]
  obtain m jobs where
    "create_message engine no_faults a_minute_early id_m1 reminder two_phones =
       (two_phones\<lparr>messages := messages two_phones @ [m], queue := queue two_phones @ jobs\<rparr>,
        Created id_m1 (map (\<lambda>d. (id_m1, device_job_id id_m1 (device_id d), device_id d))
                        [phone1, phone2]))"
    and "status m = Scheduled" and "length jobs = length [phone1, phone2]"
    by blast
  then have "create_message engine no_faults a_minute_early id_m1 reminder two_phones =
        (two_phones\<lparr>messages := [m], queue := jobs\<rparr>,
         Created id_m1 [(id_m1, device_job_id id_m1 id_d1, id_d1),
                        (id_m1, device_job_id id_m1 id_d2, id_d2)])
      \<and> status m = Scheduled \<and> length jobs = 2"
    by (simp add: two_phones_def phone1_def phone2_def)
  with fields reminder_conversion future target valid keys show ?thesis
    by (simp del: One_nat_def) blast
qed

section \<open>Cancellation\<close>

lemma findById_Some: "findById i ms = Some m \<Longrightarrow> message_id m = i \<and> m \<in> set ms"
  by (induction ms) (auto simp: findById_def split: if_splits)

lemma ObjectId_isValid_nonempty: "ObjectId_isValid x \<Longrightarrow> x \<noteq> []"
  by (auto simp: ObjectId_isValid_def)

lemma remove_jobs_no_throw:
  "\<forall>k \<in> set ks. \<not> getJob_throws f k \<and> \<not> remove_throws f k \<Longrightarrow>
   remove_jobs f ks q = (filter (\<lambda>j. jobId j \<notin> set ks) q, False)"
proof (induction ks arbitrary: q)
  case Nil
  then show ?case by simp
next
  case (Cons k ks)
  have step: "remove_if_present f k q = Some (queue_remove k q, queue_getJob k q \<noteq> None)"
  proof (cases "queue_getJob k q")
    case None
    then have "queue_remove k q = q"
      by (auto simp: queue_getJob_def queue_remove_def find_None_iff filter_id_conv)
    with None Cons.prems show ?thesis by (simp add: remove_if_present_def)
  next
    case (Some j)
    with Cons.prems show ?thesis by (simp add: remove_if_present_def)
  qed
  have "remove_jobs f ks (queue_remove k q) =
          (filter (\<lambda>j. jobId j \<notin> set ks) (queue_remove k q), False)"
    using Cons.prems by (intro Cons.IH) simp
  with step show ?case
    by (auto simp: queue_remove_def intro: filter_cong)
qed

text \<open>
  What cancelling a stored message whose status is Scheduled (or Pending) does, whichever
  queue calls throw: the removals stop at the first call that throws, the record's
  status becomes Cancelled and nothing else of it changes, the answer is a success that
  carries the warning exactly when a call threw, and no other message changes.
\<close>

lemma cancel_scheduled_marks_cancelled:
  assumes valid: "ObjectId_isValid messageId"
      and found: "findById (ObjectId_cast messageId) (messages s) = Some m"
      and pending: "status m = Scheduled \<or> status m = Pending"
  shows "delete_message f now messageId s =
           (s\<lparr>queue := fst (remove_jobs f (candidate_job_ids messageId (devices s)) (queue s)),
              messages := findByIdAndUpdate (message_id m)
                            (\<lambda>m. m\<lparr>status := Cancelled\<rparr>) (messages s)\<rparr>,
            MessageCancelled (message_id m) Cancelled now
              (snd (remove_jobs f (candidate_job_ids messageId (devices s)) (queue s))))
         \<and> findById (ObjectId_cast messageId) (messages (fst (delete_message f now messageId s)))
             = Some (m\<lparr>status := Cancelled\<rparr>)
         \<and> (\<forall>i. i \<noteq> message_id m \<longrightarrow>
               findById i (messages (fst (delete_message f now messageId s)))
                 = findById i (messages s))"
proof -
  let ?R = "remove_jobs f (candidate_job_ids messageId (devices s)) (queue s)"
  let ?upd = "\<lambda>m. m\<lparr>status := Cancelled\<rparr>"
  have mid: "message_id m = ObjectId_cast messageId"
    using found by (simp add: findById_Some)
  have eq: "delete_message f now messageId s =
              (s\<lparr>queue := fst ?R, messages := findByIdAndUpdate (message_id m) ?upd (messages s)\<rparr>,
               MessageCancelled (message_id m) Cancelled now (snd ?R))"
    using valid found pending ObjectId_isValid_nonempty [OF valid]
    by (auto simp: delete_message_def Let_def strict_update_cancelled split: prod.splits)
  have after: "findById (ObjectId_cast messageId)
                 (findByIdAndUpdate (message_id m) ?upd (messages s)) = Some (?upd m)"
    using found by (simp add: mid findById_update)
  have others: "findById i (findByIdAndUpdate (message_id m) ?upd (messages s))
                  = findById i (messages s)" if "i \<noteq> message_id m" for i
    using that by (simp add: findById_update_other)
  from eq after others show ?thesis by simp
qed

text \<open>
  Claim C7 on the code. The message of \<open>scheduled_state\<close> is cancelled while the job of
  the second phone cannot be removed. The first phone's job is removed, the second stays,
  the answer is a success with the warning and shows \<open>cancelledAt\<close>; the record becomes
  Cancelled, but it carries no \<open>cancelledAt\<close>: the field is assigned to the document in
  memory and is not a path of the message schema, so \<open>save\<close> does not write it.
\<close>

theorem cancel_loses_cancelledAt:
  "''cancelledAt'' \<notin> set messageSchema \<and>
   delete_message second_job_locked noon_2030 id_m1 scheduled_state =
     (scheduled_state
        \<lparr>queue := [reminder_job id_d2],
         messages := [reminder_message\<lparr>status := Cancelled\<rparr>]\<rparr>,
      MessageCancelled id_m1 Cancelled noon_2030 True) \<and>
   cancelledAt (reminder_message\<lparr>status := Cancelled\<rparr>) = None"
  by code_simp

section \<open>Registration\<close>



lemma Device_findOne_Some:
  "Device_findOne tok ds = Some dev \<Longrightarrow> dev \<in> set ds \<and> pushToken dev = tok"
  by (auto simp: Device_findOne_def find_Some_iff)



lemma find_replaced:
  assumes found: "find P ds = Some dev" and new: "P dev'"
      and only: "\<forall>d \<in> set ds. Q d \<longrightarrow> d = dev" and self: "Q dev"
  shows "find P (map (\<lambda>d. if Q d then dev' else d) ds) = Some dev'"
  using found only
proof (induction ds)
  case Nil
  then show ?case by simp
next
  case (Cons a ds)
  show ?case
  proof (cases "P a")
    case True
    with Cons.prems(1) have "a = dev" by simp
    with self new show ?thesis by simp
  next
    case False
    with Cons.prems(1) have rest: "find P ds = Some dev" by simp
    have "a \<noteq> dev"
      using False rest by (auto simp: find_Some_iff)
    with Cons.prems(2) have "\<not> Q a" by auto
    moreover have "find P (map (\<lambda>d. if Q d then dev' else d) ds) = Some dev'"
      using rest Cons.prems(2) by (intro Cons.IH) auto
    ultimately show ?thesis using False by simp
  qed
qed

text \<open>
  A registration with a known token leaves the device in place with \<open>lastActive\<close>
  refreshed and \<open>userId\<close> and \<open>healthProfile\<close> replaced when the request gives them.
\<close>

lemma register_refreshes_device:
  assumes ids: "distinct (map device_id (devices s))"
      and tok: "reg_pushToken r \<noteq> []"
      and dev: "Device_findOne (reg_pushToken r) (devices s) = Some dev"
  shows "Device_findOne (reg_pushToken r) (devices (fst (register_device now new_id r s)))
           = Some (refresh_device now r dev)"
proof -
  from dev have mem: "dev \<in> set (devices s)" and tk: "pushToken dev = reg_pushToken r"
    by (simp_all add: Device_findOne_Some)
  have same: "\<forall>d \<in> set (devices s). device_id d = device_id dev \<longrightarrow> d = dev"
    using ids mem by (meson distinct_map inj_onD)
  have kept: "pushToken (refresh_device now r dev) = reg_pushToken r"
    using tk by (simp add: refresh_device_def)
  have "find (\<lambda>d. pushToken d = reg_pushToken r)
          (map (\<lambda>d. if device_id d = device_id dev then refresh_device now r dev else d) (devices s))
        = Some (refresh_device now r dev)"
    using dev [unfolded Device_findOne_def] kept same by (rule find_replaced) simp
  with tok dev show ?thesis
    by (simp add: register_device_def Device_findOne_def)
qed







section \<open>The status of a record along a run\<close>

lemma update_members:
  "m' \<in> set (findByIdAndUpdate k upd ms) \<Longrightarrow>
   m' \<in> set ms \<or> (\<exists>m \<in> set ms. message_id m = k \<and> m' = upd m)"
  by (auto simp: findByIdAndUpdate_def split: if_splits)

lemma messages_register: "messages (fst (register_device now new_id r s)) = messages s"
  by (simp add: register_device_def split: option.splits)

lemma messages_create:
  "messages (fst (create_message impl f now new_id r s)) = messages s \<or>
   (\<exists>t. messages (fst (create_message impl f now new_id r s))
          = messages s @ [new_message now new_id r t])"
  by (auto simp: create_message_def save_and_enqueue_def Let_def
           split: sum.splits option.splits)

lemma messages_delete:
  "messages (fst (delete_message f now messageId s)) = messages s \<or>
   messages (fst (delete_message f now messageId s))
     = findByIdAndDelete (ObjectId_cast messageId) (messages s) \<or>
   (\<exists>m \<in> set (messages s). (status m = Scheduled \<or> status m = Pending) \<and>
      messages (fst (delete_message f now messageId s))
        = findByIdAndUpdate (message_id m)
            (\<lambda>m. m\<lparr>status := Cancelled\<rparr>) (messages s))"
proof (cases "findById (ObjectId_cast messageId) (messages s)")
  case None
  then show ?thesis by (simp add: delete_message_def)
next
  case (Some m)
  then have "m \<in> set (messages s)" by (simp add: findById_Some)
  with Some show ?thesis
    by (auto simp: delete_message_def Let_def strict_update_cancelled split: prod.splits)
qed

lemma messages_bulk_delete:
  "set (messages (fst (bulk_delete f r s))) \<subseteq> set (messages s)"
  by (auto simp: bulk_delete_def Let_def split: option.splits prod.splits)

lemma step_keeps:
  assumes inv: "\<forall>m \<in> set (messages s). message_id m = i \<longrightarrow> P (status m)"
      and fresh: "\<not> creates op i"
      and work: "works_on op i \<longrightarrow> P Sent \<and> P Failed"
      and cancel: "P Cancelled \<or> (\<not> P Scheduled \<and> \<not> P Pending)"
  shows "\<forall>m \<in> set (messages (step op s)). message_id m = i \<longrightarrow> P (status m)"
proof (cases op)
  case (Register now new_id r)
  with inv show ?thesis by (simp add: messages_register)
next
  case (Create impl f now new_id r)
  with fresh have "new_id \<noteq> i" by simp
  with inv messages_create [of impl f now new_id r s] Create show ?thesis
    by (auto simp: new_message_def)
next
  case (Work reply now j)
  show ?thesis
  proof (intro ballI impI)
    fix m' assume m': "m' \<in> set (messages (step op s))" and i: "message_id m' = i"
    from process_job_messages [of reply now j s]
    consider "messages (step op s) = messages s"
      | u where "u = (\<lambda>m. m\<lparr>status := Sent\<rparr>) \<or> u = (\<lambda>m. m\<lparr>status := Failed\<rparr>)"
          and "messages (step op s) = findByIdAndUpdate (message_id (job_message j)) u (messages s)"
      using Work by auto
    then show "P (status m')"
    proof cases
      case 1
      with m' i inv show ?thesis by simp
    next
      case 2
      from m' 2(2) update_members [of m' "message_id (job_message j)" u "messages s"]
      consider "m' \<in> set (messages s)"
        | m where "m \<in> set (messages s)" "message_id m = message_id (job_message j)" "m' = u m"
        by auto
      then show ?thesis
      proof cases
        case 1
        with i inv show ?thesis by simp
      next
        case 2
        with \<open>u = _ \<or> _\<close> i have "works_on op i" and "status m' = Sent \<or> status m' = Failed"
          using Work by auto
        with work show ?thesis by auto
      qed
    qed
  qed
next
  case (Delete f now messageId)
  show ?thesis
  proof (intro ballI impI)
    fix m' assume m': "m' \<in> set (messages (step op s))" and i: "message_id m' = i"
    from messages_delete [of f now messageId s]
    consider "set (messages (step op s)) \<subseteq> set (messages s)"
      | m where "m \<in> set (messages s)" "status m = Scheduled \<or> status m = Pending"
          "messages (step op s) = findByIdAndUpdate (message_id m)
             (\<lambda>m. m\<lparr>status := Cancelled\<rparr>) (messages s)"
      using Delete by (auto simp: findByIdAndDelete_def)
    then show "P (status m')"
    proof cases
      case 1
      with m' i inv show ?thesis by auto
    next
      case 2
      from m' 2(3) update_members [of m' "message_id m" _ "messages s"]
      consider "m' \<in> set (messages s)"
        | m0 where "m0 \<in> set (messages s)" "message_id m0 = message_id m"
            "m' = m0\<lparr>status := Cancelled\<rparr>"
        by auto
      then show ?thesis
      proof cases
        case 1
        with i inv show ?thesis by simp
      next
        case b: 2
        with i have "message_id m = i" by simp
        with inv 2(1) have "P (status m)" by simp
        with 2(2) cancel have "P Cancelled" by auto
        with b show ?thesis by simp
      qed
    qed
  qed
next
  case (BulkDelete f r)
  with inv messages_bulk_delete [of f r s] show ?thesis by auto
qed

lemma run_keeps:
  assumes "\<forall>m \<in> set (messages s). message_id m = i \<longrightarrow> P (status m)"
      and "\<forall>op \<in> set ops. \<not> creates op i"
      and "\<forall>op \<in> set ops. works_on op i \<longrightarrow> P Sent \<and> P Failed"
      and "P Cancelled \<or> (\<not> P Scheduled \<and> \<not> P Pending)"
  shows "\<forall>m \<in> set (messages (run ops s)). message_id m = i \<longrightarrow> P (status m)"
  using assms
proof (induction ops arbitrary: s)
  case Nil
  then show ?case by simp
next
  case (Cons op ops)
  have "\<forall>m \<in> set (messages (step op s)). message_id m = i \<longrightarrow> P (status m)"
    using Cons.prems by (intro step_keeps) auto
  then have "\<forall>m \<in> set (messages (run ops (step op s))). message_id m = i \<longrightarrow> P (status m)"
    using Cons.prems by (intro Cons.IH) auto
  then show ?case by simp
qed

lemma status_of_cases:
  assumes "\<forall>m \<in> set (messages s). message_id m = i \<longrightarrow> P (status m)"
  shows "status_of i s = None \<or> (\<exists>st. status_of i s = Some st \<and> P st)"
proof (cases "findById i (messages s)")
  case None
  then show ?thesis by (simp add: status_of_def)
next
  case (Some m)
  with assms findById_Some [OF Some] show ?thesis by (simp add: status_of_def)
qed

lemma unique_record:
  assumes "distinct (map message_id (messages s))" and "status_of i s = Some st"
  shows "\<forall>m \<in> set (messages s). message_id m = i \<longrightarrow> status m = st"
proof (intro ballI impI)
  fix m assume m: "m \<in> set (messages s)" and i: "message_id m = i"
  from assms(2) obtain m0 where m0: "findById i (messages s) = Some m0" and st: "status m0 = st"
    by (auto simp: status_of_def)
  then have "m0 \<in> set (messages s)" and "message_id m0 = i" by (simp_all add: findById_Some)
  with assms(1) m i have "m = m0" by (metis distinct_map inj_onD)
  with st show "status m = st" by simp
qed

text \<open>
  Claim C2, as the code has it. A record that has reached Sent, Failed or Cancelled never
  returns to a status that is not terminal: after any sequence of registrations,
  creations (of other ids), worker executions, cancellations and bulk deletions it is
  either deleted or in a terminal status. As long as no worker executes a job of the
  record its status is the very same; a worker execution overwrites it with Sent or
  Failed, whatever it was (the last write wins).
\<close>

theorem terminal_status_never_reverts:
  assumes keys: "distinct (map message_id (messages s))"
      and now: "status_of i s = Some st"
      and final: "terminal st"
      and fresh: "\<forall>op \<in> set ops. \<not> creates op i"
  shows "(status_of i (run ops s) = None \<or>
          (\<exists>st'. status_of i (run ops s) = Some st' \<and> terminal st')) \<and>
         ((\<forall>op \<in> set ops. \<not> works_on op i) \<longrightarrow>
            status_of i (run ops s) = None \<or> status_of i (run ops s) = Some st)"
proof
  have start: "\<forall>m \<in> set (messages s). message_id m = i \<longrightarrow> status m = st"
    using keys now by (rule unique_record)
  with final have "\<forall>m \<in> set (messages s). message_id m = i \<longrightarrow> terminal (status m)"
    by simp
  then have "\<forall>m \<in> set (messages (run ops s)). message_id m = i \<longrightarrow> terminal (status m)"
    using fresh by (rule run_keeps) (simp_all add: terminal_def)
  then show "status_of i (run ops s) = None \<or>
             (\<exists>st'. status_of i (run ops s) = Some st' \<and> terminal st')"
    by (rule status_of_cases)
  show "(\<forall>op \<in> set ops. \<not> works_on op i) \<longrightarrow>
          status_of i (run ops s) = None \<or> status_of i (run ops s) = Some st"
  proof
    assume quiet: "\<forall>op \<in> set ops. \<not> works_on op i"
    have "\<forall>m \<in> set (messages (run ops s)). message_id m = i \<longrightarrow> status m = st"
      using start fresh
    proof (rule run_keeps)
      show "\<forall>op \<in> set ops. works_on op i \<longrightarrow> Sent = st \<and> Failed = st"
        using quiet by simp
      show "Cancelled = st \<or> (Scheduled \<noteq> st \<and> Pending \<noteq> st)"
        using final by (auto simp: terminal_def)
    qed
    from status_of_cases [OF this]
    show "status_of i (run ops s) = None \<or> status_of i (run ops s) = Some st"
      by auto
  qed
qed

text \<open>
  Claim C2 as stated fails. The message of \<open>scheduled_state\<close> is cancelled while the job
  of the second phone cannot be removed; the record is Cancelled; the job then runs and
  the record is Sent. Likewise the first phone's failure makes the record Failed and the
  second phone's success makes it Sent.
\<close>

theorem terminal_status_overwritten_counterexample:
  "terminal Cancelled \<and>
   status_of id_m1 (run (take 1 cancel_then_deliver) scheduled_state) = Some Cancelled \<and>
   status_of id_m1 (run cancel_then_deliver scheduled_state) = Some Sent \<and>
   terminal Failed \<and>
   status_of id_m1 (run (take 1 fail_then_deliver) scheduled_state) = Some Failed \<and>
   status_of id_m1 (run fail_then_deliver scheduled_state) = Some Sent"
  by code_simp

lemma delivered_state_eq:
  "delivered_state =
     scheduled_state
       \<lparr>messages := [reminder_message\<lparr>status := Sent\<rparr>],
        emitted := [\<lparr>update_messageId = id_m1, update_status = Sent,
                     update_deliveredAt = None, update_error = None\<rparr>]\<rparr>"
  by code_simp

theorem terminal_status_never_reverts_witness:
  "distinct (map message_id (messages delivered_state)) \<and>
   status_of id_m1 delivered_state = Some Sent \<and>
   terminal Sent \<and>
   (status_of id_m1 (run late_failure delivered_state) = None \<or>
    (\<exists>st'. status_of id_m1 (run late_failure delivered_state) = Some st' \<and> terminal st'))"
proof -
  have keys: "distinct (map message_id (messages delivered_state))"
    by (simp add: delivered_state_eq scheduled_state_def)
  have now: "status_of id_m1 delivered_state = Some Sent"
    by (simp add: delivered_state_eq scheduled_state_def status_of_def findById_def
          reminder_message_def)
  have final: "terminal Sent"
    by (simp add: terminal_def)
  have fresh: "\<forall>op \<in> set late_failure. \<not> creates op id_m1"
    by (simp add: late_failure_def)
  from terminal_status_never_reverts [OF keys now final fresh] keys now final
  show ?thesis by blast
qed

section \<open>Bulk deletion and the queue\<close>

lemma scheduled_state_created:
  "create_message engine no_faults a_minute_early id_m1 reminder two_phones =
     (scheduled_state,
      Created id_m1 [(id_m1, device_job_id id_m1 id_d1, id_d1),
                     (id_m1, device_job_id id_m1 id_d2, id_d2)])"
  by code_simp

lemma cleanup_queue_untouched:
  assumes "\<forall>m \<in> set ms. queue_getJob (message_id m) q = None"
  shows "cleanup_queue f ms q n = (q, n)"
  using assms
  by (induction ms arbitrary: n) (auto simp: remove_if_present_def)

lemma device_job_id_not_object_id:
  assumes "is_object_id m" and "is_object_id i"
  shows "device_job_id m d \<noteq> i"
  using assms by (auto simp: device_job_id_def is_object_id_def)

text \<open>
  Whenever every queued job is keyed by a message id and a device id, as the creation
  route keys them, a bulk deletion removes no job at all, whatever its filter and
  whichever queue calls throw: it only deletes the records.
\<close>

lemma bulk_delete_removes_no_device_job:
  assumes ids: "\<forall>m \<in> set (messages s). is_object_id (message_id m)"
      and jobs: "\<forall>j \<in> set (queue s). \<exists>m d. is_object_id m \<and> jobId j = device_job_id m d"
      and flt: "build_filter r = Some deleteFilter" and cast: "castable deleteFilter"
  shows "bulk_delete f r s =
           (s\<lparr>messages := filter (\<lambda>m. \<not> selects deleteFilter m) (messages s)\<rparr>,
            BulkDeleted (length (filter (selects deleteFilter) (messages s))) 0)"
proof -
  have none: "queue_getJob (message_id m) (queue s) = None" if "m \<in> set (messages s)" for m
  proof -
    have "jobId j \<noteq> message_id m" if "j \<in> set (queue s)" for j
      using jobs ids that \<open>m \<in> set (messages s)\<close> device_job_id_not_object_id by metis
    then show ?thesis by (auto simp: queue_getJob_def find_None_iff)
  qed
  have "cleanup_queue f (filter (selects deleteFilter) (messages s)) (queue s) 0 = (queue s, 0)"
    using none by (intro cleanup_queue_untouched) auto
  with flt cast show ?thesis by (simp add: bulk_delete_def)
qed

text \<open>
  Claim C8 on the code. The message of \<open>scheduled_state\<close> is Scheduled and has one job
  per phone, keyed by message id and device id, as \<open>create_message\<close> enqueues them.
  Bulk deletion by status looks up only the job whose id is the bare message id: it
  deletes the record, reports no job removed and leaves both jobs in the queue, where the
  single cancellation of the same message removes them.
\<close>

theorem bulk_delete_leaves_device_jobs:
  "bulk_delete no_faults delete_scheduled scheduled_state =
     (scheduled_state\<lparr>messages := []\<rparr>, BulkDeleted 1 0) \<and>
   queue (fst (bulk_delete no_faults delete_scheduled scheduled_state))
     = [reminder_job id_d1, reminder_job id_d2] \<and>
   queue (fst (delete_message no_faults noon_2030 id_m1 scheduled_state)) = []"
  by code_simp

section \<open>The time normalizer\<close>

lemma digit_simps:
  assumes "is_digit c"
  shows "c \<noteq> CHR ''Z''" "c \<noteq> CHR ''+''" "c \<noteq> CHR ''-''" "c \<noteq> CHR ''.''" "c \<noteq> CHR '':''"
        "\<not> is_space c"
  using assms by (auto simp: is_digit_def is_space_def)

lemma naive_format_chars:
  assumes "matches naive_format s"
  obtains y1 y2 y3 y4 m1 m2 d1 d2 h1 h2 i1 i2 s1 s2 where
    "s = [y1, y2, y3, y4, CHR ''-'', m1, m2, CHR ''-'', d1, d2, CHR ''T'',
          h1, h2, CHR '':'', i1, i2, CHR '':'', s1, s2]"
    "is_digit y1" "is_digit y2" "is_digit y3" "is_digit y4" "is_digit m1" "is_digit m2"
    "is_digit d1" "is_digit d2" "is_digit h1" "is_digit h2" "is_digit i1" "is_digit i2"
    "is_digit s1" "is_digit s2"
  using assms by (auto simp: matches_def naive_format_def list_all2_Cons1)

lemma offset_chars:
  assumes "parse_offset off = Some ofs"
  obtains "off = ''Z''"
    | sg a b c d where "off = [sg, a, b, CHR '':'', c, d]" "sg = CHR ''+'' \<or> sg = CHR ''-''"
        "is_digit a" "is_digit b" "is_digit c" "is_digit d"
  using assms
  by (auto simp: parse_offset_def matches_def offset_part_def list_all2_Cons1 split: if_splits)

lemma cst_offset: "parse_offset ''-06:00'' = Some (- 360)"
  by code_simp

lemma naive_no_timezone:
  assumes fmt: "matches naive_format s"
  shows "\<not> hasTimezoneInfo s \<and> test_prefix naive_format s \<and> trim s = s"
  using fmt
proof (rule naive_format_chars)
  fix y1 y2 y3 y4 m1 m2 d1 d2 h1 h2 i1 i2 s1 s2
  assume s: "s = [y1, y2, y3, y4, CHR ''-'', m1, m2, CHR ''-'', d1, d2, CHR ''T'',
          h1, h2, CHR '':'', i1, i2, CHR '':'', s1, s2]"
    and dg: "is_digit y1" "is_digit y2" "is_digit y3" "is_digit y4" "is_digit m1" "is_digit m2"
    "is_digit d1" "is_digit d2" "is_digit h1" "is_digit h2" "is_digit i1" "is_digit i2"
    "is_digit s1" "is_digit s2"
  have "\<not> test_suffix tz_Z s"
    using dg by (simp add: s test_suffix_def matches_def tz_Z_def digit_simps)
  moreover have "\<not> test_suffix tz_colon s"
    using dg by (simp add: s test_suffix_def matches_def tz_colon_def digit_simps)
  moreover have "\<not> test_suffix tz_plain s"
    using dg by (simp add: s test_suffix_def matches_def tz_plain_def digit_simps)
  moreover have "test_prefix naive_format s"
    using dg by (simp add: test_prefix_def s naive_format_def matches_def)
  moreover have "trim s = s"
    using dg by (simp add: s trim_def digit_simps)
  ultimately show ?thesis by (simp add: hasTimezoneInfo_def)
qed

lemma iso_parse_with_offset:
  assumes fmt: "matches naive_format s" and cal: "calendar_valid s"
      and off: "parse_offset off = Some ofs"
  shows "iso_parse (s @ off) = Some (local_time s - ofs * 60000)
         \<and> hasTimezoneInfo (s @ off) \<and> trim (s @ off) = s @ off"
  using fmt
proof (rule naive_format_chars)
  fix y1 y2 y3 y4 m1 m2 d1 d2 h1 h2 i1 i2 s1 s2
  assume s: "s = [y1, y2, y3, y4, CHR ''-'', m1, m2, CHR ''-'', d1, d2, CHR ''T'',
          h1, h2, CHR '':'', i1, i2, CHR '':'', s1, s2]"
    and dg: "is_digit y1" "is_digit y2" "is_digit y3" "is_digit y4" "is_digit m1" "is_digit m2"
    "is_digit d1" "is_digit d2" "is_digit h1" "is_digit h2" "is_digit i1" "is_digit i2"
    "is_digit s1" "is_digit s2"
  have pre: "test_prefix date_hm (s @ off)"
    using dg by (simp add: s test_prefix_def matches_def date_hm_def)
  have flds: "field 0 4 (s @ off) = field 0 4 s" "field 5 2 (s @ off) = field 5 2 s"
    "field 8 2 (s @ off) = field 8 2 s" "field 11 2 (s @ off) = field 11 2 s"
    "field 14 2 (s @ off) = field 14 2 s"
    by (simp_all add: s field_def)
  have r1: "drop 16 (s @ off) = CHR '':'' # s1 # s2 # off"
    by (simp add: s)
  have sec: "test_prefix sec_part (CHR '':'' # s1 # s2 # off)"
    using dg by (simp add: test_prefix_def matches_def sec_part_def)
  have secv: "field 1 2 (CHR '':'' # s1 # s2 # off) = field 17 2 s"
    by (simp add: s field_def)
  have r2: "drop 3 (CHR '':'' # s1 # s2 # off) = off"
    by simp
  have noms: "\<not> test_prefix ms_part off"
    using off by (rule offset_chars) (auto simp: test_prefix_def matches_def ms_part_def)
  have parsed: "iso_parse (s @ off) = Some (local_time s - ofs * 60000)"
    unfolding iso_parse_def Let_def r1 flds
    using cal off pre sec noms
    by (simp only: secv r2 if_True if_False simp_thms local_time_def calendar_valid_def
          option.case)
  have tz: "hasTimezoneInfo (s @ off)"
    using off
  proof (rule offset_chars)
    assume "off = ''Z''"
    then show ?thesis
      by (simp add: hasTimezoneInfo_def test_suffix_def matches_def tz_Z_def s)
  next
    fix sg a b c d
    assume "off = [sg, a, b, CHR '':'', c, d]" "sg = CHR ''+'' \<or> sg = CHR ''-''"
      "is_digit a" "is_digit b" "is_digit c" "is_digit d"
    then show ?thesis
      by (simp add: hasTimezoneInfo_def test_suffix_def matches_def tz_colon_def s)
  qed
  have tr: "trim (s @ off) = s @ off"
    using off
  proof (rule offset_chars)
    assume "off = ''Z''"
    moreover have "\<not> is_space CHR ''Z''" by (simp add: is_space_def)
    ultimately show ?thesis using dg by (simp add: trim_def s digit_simps)
  next
    fix sg a b c d
    assume "off = [sg, a, b, CHR '':'', c, d]" "sg = CHR ''+'' \<or> sg = CHR ''-''"
      "is_digit a" "is_digit b" "is_digit c" "is_digit d"
    then show ?thesis using dg by (simp add: trim_def s digit_simps)
  qed
  from parsed tz tr show ?thesis by simp
qed

text \<open>
  An input \<open>YYYY-MM-DDTHH:mm:ss\<close> without zone designator and with fields in their
  calendar ranges is handled as the same input followed by \<open>-06:00\<close>: the instant
  returned is the one at which a clock six hours behind UTC shows the input, whatever
  the date, and the display string is that instant shown in America/Chicago. The same
  input followed by \<open>Z\<close> or by an offset \<open>\<plusminus>HH:mm\<close> is parsed as given.
\<close>

lemma naive_time_fixed_offset:
  assumes fmt: "matches naive_format s" and cal: "calendar_valid s"
  shows "convertToCST impl s =
           Inr \<lparr>utcDate = local_time s + 6 * 3600000,
                cstString = toLocaleString_Chicago impl (local_time s + 6 * 3600000)\<rparr>
         \<and> convertToCST impl s = convertToCST impl (s @ ''-06:00'')
         \<and> convertToCST impl (s @ ''Z'') =
             Inr \<lparr>utcDate = local_time s,
                  cstString = toLocaleString_Chicago impl (local_time s)\<rparr>
         \<and> (\<forall>off ofs. parse_offset off = Some ofs \<longrightarrow>
               convertToCST impl (s @ off) =
                 Inr \<lparr>utcDate = local_time s - ofs * 60000,
                      cstString = toLocaleString_Chicago impl (local_time s - ofs * 60000)\<rparr>)"
proof -
  have given: "convertToCST impl (s @ off) =
                 Inr \<lparr>utcDate = local_time s - ofs * 60000,
                      cstString = toLocaleString_Chicago impl (local_time s - ofs * 60000)\<rparr>"
    if "parse_offset off = Some ofs" for off ofs
    using iso_parse_with_offset [OF fmt cal that]
    by (simp add: convertToCST_def parse_and_render_def Date_parse_def Let_def)
  have naive: "convertToCST impl s =
                 Inr \<lparr>utcDate = local_time s + 6 * 3600000,
                      cstString = toLocaleString_Chicago impl (local_time s + 6 * 3600000)\<rparr>"
    using iso_parse_with_offset [OF fmt cal cst_offset] naive_no_timezone [OF fmt]
    by (simp add: convertToCST_def parse_and_render_def Date_parse_def Let_def)
  have utc: "parse_offset ''Z'' = Some 0"
    by (simp add: parse_offset_def)
  from naive given [OF cst_offset] given [OF utc] given show ?thesis by simp
qed

text \<open>
  While America/Chicago is on standard time the fixed offset is the offset of the zone:
  noon on 1 January 2030 is returned as 18:00 UTC and shown as noon.
\<close>

lemma winter_noon_read_as_chicago:
  "convertToCST impl ''2030-01-01T12:00:00'' =
     Inr \<lparr>utcDate = noon_2030, cstString = ''01/01/2030, 12:00:00 PM''\<rparr> \<and>
   convertToCST impl ''2030-01-01T12:00:00Z'' =
     Inr \<lparr>utcDate = noon_2030 - 21600000, cstString = ''01/01/2030, 06:00:00 AM''\<rparr>"
proof -
  have fmt: "matches naive_format ''2030-01-01T12:00:00''" by code_simp
  have cal: "calendar_valid ''2030-01-01T12:00:00''" by code_simp
  have t: "local_time ''2030-01-01T12:00:00'' = noon_2030 - 21600000" by code_simp
  have d1: "toLocaleString_Chicago impl noon_2030 = ''01/01/2030, 12:00:00 PM''" by code_simp
  have d2: "toLocaleString_Chicago impl (noon_2030 - 21600000) = ''01/01/2030, 06:00:00 AM''"
    by code_simp
  from naive_time_fixed_offset [OF fmt cal, of impl]
  show ?thesis by (simp add: t d1 d2)
qed

lemma ms_chars:
  assumes "matches ms_part frac"
  obtains a b c where "frac = [CHR ''.'', a, b, c]" "is_digit a" "is_digit b" "is_digit c"
  using assms by (auto simp: matches_def ms_part_def list_all2_Cons1)

text \<open>
  The same with a fraction of three digits after the seconds, the form of a string made
  from \<open>toISOString()\<close> without its final \<open>Z\<close>: the milliseconds are kept and the
  fixed offset is applied.
\<close>

lemma naive_time_with_milliseconds:
  assumes fmt: "matches naive_format s" and cal: "calendar_valid s"
      and frac: "matches ms_part frac"
  shows "convertToCST impl (s @ frac) =
           Inr \<lparr>utcDate = local_time s + field 1 3 frac + 6 * 3600000,
                cstString = toLocaleString_Chicago impl (local_time s + field 1 3 frac + 6 * 3600000)\<rparr>"
  using fmt
proof (rule naive_format_chars)
  fix y1 y2 y3 y4 m1 m2 d1 d2 h1 h2 i1 i2 s1 s2
  assume s: "s = [y1, y2, y3, y4, CHR ''-'', m1, m2, CHR ''-'', d1, d2, CHR ''T'',
          h1, h2, CHR '':'', i1, i2, CHR '':'', s1, s2]"
    and dg: "is_digit y1" "is_digit y2" "is_digit y3" "is_digit y4" "is_digit m1" "is_digit m2"
    "is_digit d1" "is_digit d2" "is_digit h1" "is_digit h2" "is_digit i1" "is_digit i2"
    "is_digit s1" "is_digit s2"
  from frac show ?thesis
  proof (rule ms_chars)
    fix a b c
    assume f: "frac = [CHR ''.'', a, b, c]" and fd: "is_digit a" "is_digit b" "is_digit c"
    let ?t = "s @ frac @ ''-06:00''"
    have notz: "\<not> hasTimezoneInfo (s @ frac)"
      using dg fd
      by (simp add: s f hasTimezoneInfo_def test_suffix_def matches_def tz_Z_def tz_colon_def
            tz_plain_def digit_simps)
    have pre: "test_prefix naive_format (s @ frac)"
      using dg by (simp add: test_prefix_def s naive_format_def matches_def)
    have tr: "trim (s @ frac) = s @ frac"
      using dg fd by (simp add: s f trim_def digit_simps)
    have pre16: "test_prefix date_hm ?t"
      using dg by (simp add: s test_prefix_def matches_def date_hm_def)
    have flds: "field 0 4 ?t = field 0 4 s" "field 5 2 ?t = field 5 2 s"
      "field 8 2 ?t = field 8 2 s" "field 11 2 ?t = field 11 2 s"
      "field 14 2 ?t = field 14 2 s"
      by (simp_all add: s field_def)
    have r1: "drop 16 ?t = CHR '':'' # s1 # s2 # frac @ ''-06:00''"
      by (simp add: s)
    have sec: "test_prefix sec_part (CHR '':'' # s1 # s2 # frac @ ''-06:00'')"
      using dg by (simp add: test_prefix_def matches_def sec_part_def)
    have secv: "field 1 2 (CHR '':'' # s1 # s2 # frac @ ''-06:00'') = field 17 2 s"
      by (simp add: s field_def)
    have r2: "drop 3 (CHR '':'' # s1 # s2 # frac @ ''-06:00'') = frac @ ''-06:00''"
      by simp
    have ms: "test_prefix ms_part (frac @ ''-06:00'')"
      using fd by (simp add: f test_prefix_def matches_def ms_part_def)
    have msv: "field 1 3 (frac @ ''-06:00'') = field 1 3 frac"
      by (simp add: f field_def)
    have r3: "drop 4 (frac @ ''-06:00'') = ''-06:00''"
      by (simp add: f)
    have parsed: "iso_parse ?t = Some (local_time s + field 1 3 frac - (- 360) * 60000)"
      unfolding iso_parse_def Let_def r1 flds
      using cal cst_offset pre16 sec ms
      by (simp only: secv r2 r3 msv if_True if_False simp_thms local_time_def calendar_valid_def
            option.case MakeTime_def MakeDate_def) simp
    show ?thesis
      using parsed notz pre
      by (simp add: convertToCST_def parse_and_render_def Date_parse_def Let_def tr)
  qed
qed

lemma format_error:
  assumes "\<not> hasTimezoneInfo (trim x)" and "\<not> test_prefix naive_format (trim x)"
  shows "convertToCST impl x = Inl ''Invalid datetime format. Expected: YYYY-MM-DDTHH:mm:ss''"
  using assms by (simp add: convertToCST_def Let_def)

lemma explicit_zone_parsed_as_given:
  assumes "hasTimezoneInfo (trim x)"
  shows "convertToCST impl x =
           (case Date_parse impl (trim x) of
              None \<Rightarrow> Inl ''Invalid date/time value''
            | Some t \<Rightarrow> Inr \<lparr>utcDate = t, cstString = toLocaleString_Chicago impl t\<rparr>)"
  using assms by (simp add: convertToCST_def parse_and_render_def Let_def)

text \<open>
  Claim C6 on the code. In its comments \<open>convertToCST\<close> takes an input without zone
  designator as America/Chicago time, five hours behind UTC during daylight saving
  time, and it shows its result in America/Chicago; yet it appends \<open>-06:00\<close> at every
  date. The input reads 12:00:00 on 1 July 2025, when America/Chicago is five hours
  behind UTC. The zone shows that time at \<open>summer_noon_chicago\<close>, 17:00 UTC; the
  normalizer returns the instant one hour later, 18:00 UTC, and its own display string
  of the result reads 01:00:00 PM, not the time that was given.
\<close>

theorem naive_summer_time_read_one_hour_late:
  "convertToCST impl summer_noon =
     Inr \<lparr>utcDate = summer_noon_utc_minus_6, cstString = ''07/01/2025, 01:00:00 PM''\<rparr> \<and>
   summer_noon_utc_minus_6 = summer_noon_chicago + 3600000 \<and>
   chicago_offset summer_noon_chicago = Some (- 5 * 3600000) \<and>
   toLocaleString_Chicago impl summer_noon_chicago = ''07/01/2025, 12:00:00 PM''"
  by code_simp
end
